theory Spec2Isabelle
  imports Main
begin

section \<open>Bytes, runes and UTF-8\<close>

text \<open>
  A Go string and a Go byte slice are sequences of bytes. A byte is modelled as a natural
  number (below 256 for every value the program can hold), a string as the list of its
  bytes, and a rune as the natural number of its code point. \<open>bytes\<close> turns an Isabelle
  string literal into such a list, so that inputs can be written as text.
\<close>

type_synonym byte = nat
type_synonym gostring = "nat list"
type_synonym rune = nat

definition bytes :: "string \<Rightarrow> gostring" where
  "bytes s = map of_char s"

text \<open>
  The decoder of Go's package unicode/utf8, which the text view calls directly
  (\<open>utf8.DecodeLastRune\<close>) and through \<open>range\<close> over a string and the conversion to
  \<open>[]rune\<close>. \<open>first\<close> is the table of the same name: for a leading byte, the length of
  the encoding and the range accepted for the second byte. The masks and shifts of the
  decoder are written as \<open>mod\<close> and multiplication; the fields they combine do not
  overlap, so \<open>|\<close> is \<open>+\<close>.
\<close>

definition RuneError :: rune where
  "RuneError = 0xFFFD"

definition RuneSelf :: nat where
  "RuneSelf = 0x80"

definition UTFMax :: int where
  "UTFMax = 4"

definition locb :: byte where
  "locb = 0x80"

definition hicb :: byte where
  "hicb = 0xBF"

datatype firstInfo = AS | XX | Lead nat byte byte

definition first :: "byte \<Rightarrow> firstInfo" where
  "first b =
    (if b < 0x80 then AS
     else if b < 0xC2 then XX
     else if b < 0xE0 then Lead 2 locb hicb
     else if b = 0xE0 then Lead 3 0xA0 hicb
     else if b < 0xED then Lead 3 locb hicb
     else if b = 0xED then Lead 3 locb 0x9F
     else if b < 0xF0 then Lead 3 locb hicb
     else if b = 0xF0 then Lead 4 0x90 hicb
     else if b < 0xF4 then Lead 4 locb hicb
     else if b = 0xF4 then Lead 4 locb 0x8F
     else XX)"

definition DecodeRune :: "gostring \<Rightarrow> rune \<times> nat" where
  "DecodeRune p =
    (case p of
       [] \<Rightarrow> (RuneError, 0)
     | p0 # _ \<Rightarrow>
        (case first p0 of
           AS \<Rightarrow> (p0, 1)
         | XX \<Rightarrow> (RuneError, 1)
         | Lead sz lo hi \<Rightarrow>
            if length p < sz then (RuneError, 1)
            else let b1 = p ! 1 in
              if b1 < lo \<or> hi < b1 then (RuneError, 1)
              else if sz \<le> 2 then ((p0 mod 32) * 64 + b1 mod 64, 2)
              else let b2 = p ! 2 in
                if b2 < locb \<or> hicb < b2 then (RuneError, 1)
                else if sz \<le> 3 then ((p0 mod 16) * 4096 + (b1 mod 64) * 64 + b2 mod 64, 3)
                else let b3 = p ! 3 in
                  if b3 < locb \<or> hicb < b3 then (RuneError, 1)
                  else ((p0 mod 8) * 262144 + (b1 mod 64) * 4096 + (b2 mod 64) * 64
                          + b3 mod 64, 4)))"

text \<open>\<open>RuneStart b\<close> is \<open>b & 0xC0 != 0x80\<close>: the byte is not a continuation byte.\<close>

definition RuneStart :: "byte \<Rightarrow> bool" where
  "RuneStart b = (\<not> (0x80 \<le> b \<and> b < 0xC0))"

text \<open>
  The backward scan of \<open>DecodeLastRune\<close>:
  \<open>for start--; start >= lim; start-- { if RuneStart(p[start]) { break } }\<close>,
  entered with \<open>start\<close> already decremented. It returns the value of \<open>start\<close> after
  the loop.
\<close>

function lastRuneStart :: "gostring \<Rightarrow> int \<Rightarrow> int \<Rightarrow> int" where
  "lastRuneStart p start lim =
    (if lim \<le> start
     then (if RuneStart (p ! nat start) then start else lastRuneStart p (start - 1) lim)
     else start)"
  by pat_completeness auto
termination
  by (relation "measure (\<lambda>(p, start, lim). nat (start - lim + 1))") auto

declare lastRuneStart.simps [simp del]

definition DecodeLastRune :: "gostring \<Rightarrow> rune \<times> nat" where
  "DecodeLastRune p =
    (let end = int (length p) in
     if end = 0 then (RuneError, 0)
     else if last p < RuneSelf then (last p, 1)
     else
       let lim = max 0 (end - UTFMax);
           start0 = lastRuneStart p (end - 2) lim;
           start = (if start0 < 0 then 0 else start0);
           (r, size) = DecodeRune (drop (nat start) p)
       in if start + int size \<noteq> end then (RuneError, 1) else (r, size))"

section \<open>The text view\<close>

text \<open>
  \<open>textViewIndex\<close> is one line of the display index. \<open>TextView\<close> holds the fields of the
  Go struct that the functions below read or write. The embedded Box only supplies the
  inner rectangle, which \<open>Draw\<close> takes as arguments; the mutex is left out (every function
  here runs under it from start to end). \<open>index\<close> is a slice that is either nil or was
  grown by \<open>append\<close> from nil, so it is nil exactly when it is empty: the empty list
  stands for nil. \<open>changed\<close> says whether a change handler is installed. Positions are
  byte offsets and never negative; widths and offsets are Go ints, modelled as unbounded
  integers (no computation here comes near the 64-bit range for inputs that fit in
  memory).
\<close>

type_synonym color = int

record textViewIndex =
  Line :: nat
  Pos :: nat
  NextPos :: nat
  Width :: int
  Color :: color
  Region :: gostring

record TextView =
  buffer :: "gostring list"
  recentBytes :: gostring
  index :: "textViewIndex list"
  align :: int
  fromHighlight :: int
  toHighlight :: int
  highlights :: "gostring set"
  lastWidth :: int
  longestLine :: int
  lineOffset :: int
  trackEnd :: bool
  columnOffset :: int
  pageSize :: int
  scrollable :: bool
  wrap :: bool
  wordWrap :: bool
  textColor :: color
  dynamicColors :: bool
  regions :: bool
  scrollToHighlights :: bool
  changed :: bool

text \<open>
  The alignment constants are declared outside the files at hand; only their being
  distinct matters below.
\<close>

definition AlignLeft :: int where
  "AlignLeft = 0"

definition AlignCenter :: int where
  "AlignCenter = 1"

definition AlignRight :: int where
  "AlignRight = 2"

text \<open>
  \<open>NewTextView\<close>: the fields the constructor sets, every other field at Go's zero value.
  The primary text colour comes from the global style table and is a parameter.
\<close>

definition NewTextView :: "color \<Rightarrow> TextView" where
  "NewTextView primaryTextColor =
    \<lparr> buffer = [], recentBytes = [], index = [], align = AlignLeft,
      fromHighlight = 0, toHighlight = 0, highlights = {}, lastWidth = 0,
      longestLine = 0, lineOffset = -1, trackEnd = False, columnOffset = 0,
      pageSize = 0, scrollable = True, wrap = True, wordWrap = False,
      textColor = primaryTextColor, dynamicColors = False, regions = False,
      scrollToHighlights = False, changed = False \<rparr>"

section \<open>Stream ingest: Write\<close>

text \<open>
  The two patterns \<open>Write\<close> compiles, applied with \<open>FindIndex\<close>. Both end in \<open>$\<close> and
  start with a bracket that cannot occur again inside the match, so a match is a suffix of
  the text and \<open>FindIndex\<close> returns the first position whose suffix has the pattern's form:
  \<^item> \<open>openColor\<close>, \<open>\[([a-zA-Z]*|#[0-9a-zA-Z]*)$\<close>;
  \<^item> \<open>openRegion\<close>, \<open>\["[a-zA-Z0-9_,;: \-\.]*"?$\<close>.
  Every class is a set of ASCII bytes; a byte of a multi-byte or invalid sequence is in
  none of them.
\<close>

definition isLetter :: "byte \<Rightarrow> bool" where
  "isLetter b = ((0x41 \<le> b \<and> b \<le> 0x5A) \<or> (0x61 \<le> b \<and> b \<le> 0x7A))"

definition isDigit :: "byte \<Rightarrow> bool" where
  "isDigit b = (0x30 \<le> b \<and> b \<le> 0x39)"

definition isAlnum :: "byte \<Rightarrow> bool" where
  "isAlnum b = (isLetter b \<or> isDigit b)"

definition isRegionChar :: "byte \<Rightarrow> bool" where
  "isRegionChar b = (isAlnum b \<or> b \<in> set (bytes ''_,;: -.''))"

definition openColor :: "gostring \<Rightarrow> bool" where
  "openColor s =
    (case s of
       [] \<Rightarrow> False
     | b # rest \<Rightarrow> b = 0x5B \<and>
         (list_all isLetter rest \<or>
          (case rest of [] \<Rightarrow> False | h # t \<Rightarrow> h = 0x23 \<and> list_all isAlnum t)))"

definition openRegion :: "gostring \<Rightarrow> bool" where
  "openRegion s =
    (case s of
       b0 # b1 # rest \<Rightarrow> b0 = 0x5B \<and> b1 = 0x22 \<and>
         (let r = dropWhile isRegionChar rest in r = [] \<or> r = [0x22])
     | _ \<Rightarrow> False)"

fun FindIndex :: "(gostring \<Rightarrow> bool) \<Rightarrow> nat \<Rightarrow> gostring \<Rightarrow> nat option" where
  "FindIndex re pos [] = None"
| "FindIndex re pos (b # bs) = (if re (b # bs) then Some pos else FindIndex re (Suc pos) bs)"

text \<open>
  \<open>newLine.Split(s, -1)\<close> for the pattern \<open>\r?\n\<close>: the pieces between the line breaks,
  the last piece included even when it is empty.
\<close>

fun splitNewLine :: "gostring \<Rightarrow> gostring list" where
  "splitNewLine [] = [[]]"
| "splitNewLine [b] = (if b = 0x0A then [[], []] else [[b]])"
| "splitNewLine (b # c # bs) =
    (if b = 0x0A then [] # splitNewLine (c # bs)
     else if b = 0x0D \<and> c = 0x0A then [] # splitNewLine bs
     else (case splitNewLine (c # bs) of
             [] \<Rightarrow> [[b]]
           | x # xs \<Rightarrow> (b # x) # xs))"

text \<open>
  \<open>bytes.Replace(newBytes, []byte{'\t'}, bytes.Repeat([]byte{' '}, TabSize), -1)\<close>.
  \<open>TabSize\<close> is a package variable (4 unless the application changes it) and a
  parameter here; \<open>bytes.Repeat\<close> panics on a negative count.
\<close>

datatype panic = NegativeRepeatCount | SliceBoundsOutOfRange | IndexOutOfRange

definition replaceTabs :: "nat \<Rightarrow> gostring \<Rightarrow> gostring" where
  "replaceTabs n s = concat (map (\<lambda>b. if b = 0x09 then replicate n 0x20 else [b]) s)"

text \<open>
  The loop over the split lines: the first line extends the last line of the buffer (or
  starts the buffer), every further line is appended.
\<close>

fun appendLines :: "gostring list \<Rightarrow> gostring list \<Rightarrow> gostring list" where
  "appendLines buf [] = buf"
| "appendLines buf (line # lines) =
    (if buf = [] then [line] else butlast buf @ [last buf @ line]) @ lines"

text \<open>
  \<open>Write\<close> returns \<open>(n, err)\<close> and the view it leaves, or panics. The second component
  is Go's \<open>error\<close>; \<open>None\<close> is nil. The deferred call of the change handler is no
  state of the view: \<open>WriteNotifies\<close> says when it happens (once, as the call returns).
\<close>

type_synonym goerror = string

definition WriteNotifies :: "TextView \<Rightarrow> bool" where
  "WriteNotifies t = changed t"

definition Write :: "int \<Rightarrow> gostring \<Rightarrow> TextView \<Rightarrow> panic + (int \<times> goerror option \<times> TextView)" where
  "Write TabSize p t =
    (let newBytes = recentBytes t @ p;
         t = t\<lparr>recentBytes := []\<rparr>
     in if fst (DecodeLastRune p) = RuneError
        then Inr (int (length p), None, t\<lparr>recentBytes := newBytes\<rparr>)
        else
          let (newBytes, t) =
                (if dynamicColors t
                 then (case FindIndex openColor 0 newBytes of
                         Some location \<Rightarrow>
                           (take location newBytes, t\<lparr>recentBytes := drop location newBytes\<rparr>)
                       | None \<Rightarrow> (newBytes, t))
                 else (newBytes, t));
              (newBytes, t) =
                (if regions t
                 then (case FindIndex openRegion 0 newBytes of
                         Some location \<Rightarrow>
                           (take location newBytes, t\<lparr>recentBytes := drop location newBytes\<rparr>)
                       | None \<Rightarrow> (newBytes, t))
                 else (newBytes, t))
          in if TabSize < 0 then Inl NegativeRepeatCount
             else
               let newBytes = replaceTabs (nat TabSize) newBytes;
                   t = t\<lparr>buffer := appendLines (buffer t) (splitNewLine newBytes)\<rparr>
               in Inr (int (length p), None, t\<lparr>index := []\<rparr>))"

section \<open>Regular expressions\<close>

text \<open>
  A pattern is given by its anchored matcher: for a text, the length of the match that
  starts at the first byte and its submatches (the whole match first, then the groups),
  or \<open>None\<close>. \<open>FindAll\<close> is \<open>FindAllStringIndex\<close> and \<open>FindAllStringSubmatch\<close> in one:
  the successive non-overlapping matches from left to right, each with its start, its end
  and its submatches. \<open>skip\<close> counts the bytes of the last match still to be passed.
  Every pattern of the text view matches at least one byte.
\<close>

type_synonym regexp = "gostring \<Rightarrow> (nat \<times> gostring list) option"
type_synonym match = "nat \<times> nat \<times> gostring list"

fun FindAll :: "regexp \<Rightarrow> nat \<Rightarrow> nat \<Rightarrow> gostring \<Rightarrow> match list" where
  "FindAll re pos skip [] = []"
| "FindAll re pos skip (b # bs) =
    (if 0 < skip then FindAll re (Suc pos) (skip - 1) bs
     else (case re (b # bs) of
             Some (len, sub) \<Rightarrow> (pos, pos + len, sub) # FindAll re (Suc pos) (len - 1) bs
           | None \<Rightarrow> FindAll re (Suc pos) 0 bs))"

definition mStart :: "match \<Rightarrow> nat" where
  "mStart m = fst m"

definition mEnd :: "match \<Rightarrow> nat" where
  "mEnd m = fst (snd m)"

text \<open>\<open>group m i\<close> is submatch \<open>i\<close> of a match; a group that is absent is empty.\<close>

definition group :: "match \<Rightarrow> nat \<Rightarrow> gostring" where
  "group m i = (let sub = snd (snd m) in if i < length sub then sub ! i else [])"

text \<open>
  \<open>ReplaceAll ms f pos s\<close> is \<open>ReplaceAllString\<close>, given the matches \<open>ms\<close> of the pattern in
  the text: \<open>s\<close> is the text from offset \<open>pos\<close> on, and \<open>f\<close> expands the template for
  one match.
\<close>

fun ReplaceAll :: "match list \<Rightarrow> (match \<Rightarrow> gostring) \<Rightarrow> nat \<Rightarrow> gostring \<Rightarrow> gostring" where
  "ReplaceAll [] f pos s = s"
| "ReplaceAll (m # ms) f pos s =
    take (mStart m - pos) s @ f m @ ReplaceAll ms f (mEnd m) (drop (mEnd m - pos) s)"

text \<open>The template \<open>[$1$2]\<close> of the escape tags.\<close>

definition escapeTemplate :: "match \<Rightarrow> gostring" where
  "escapeTemplate m = [0x5B] @ group m 1 @ group m 2 @ [0x5D]"

text \<open>
  Modelled from the spec: the package-level patterns \<open>colorPattern\<close>, \<open>regionPattern\<close>,
  \<open>spacePattern\<close> and \<open>boundaryPattern\<close> are declared in a file that is not among the
  sources. The spec gives the colour tag as \<open>\[([A-Za-z]+|#[0-9A-Fa-f]{6})\]\<close> and the
  region tag as \<open>\["([A-Za-z0-9_,;: .\-]+)"\]\<close> with \<open>[""]\<close> closing the region (so the
  identifier may be empty); word wrap breaks "at spaces or after punctuation marks"
  (\<open>spacePattern\<close> is \<open>\s+\<close>, \<open>boundaryPattern\<close> is \<open>([[:punct:]]\s*|\s+)\<close>). The
  escape pattern, of which the sources only show the two groups of its template, is a
  parameter (see \<open>env\<close> below).
\<close>

definition isHexDigit :: "byte \<Rightarrow> bool" where
  "isHexDigit b = (isDigit b \<or> (0x41 \<le> b \<and> b \<le> 0x46) \<or> (0x61 \<le> b \<and> b \<le> 0x66))"

definition isSpace :: "byte \<Rightarrow> bool" where
  "isSpace b = (b = 0x09 \<or> b = 0x0A \<or> b = 0x0C \<or> b = 0x0D \<or> b = 0x20)"

definition isPunct :: "byte \<Rightarrow> bool" where
  "isPunct b = ((0x21 \<le> b \<and> b \<le> 0x2F) \<or> (0x3A \<le> b \<and> b \<le> 0x40)
                \<or> (0x5B \<le> b \<and> b \<le> 0x60) \<or> (0x7B \<le> b \<and> b \<le> 0x7E))"

definition colorPattern :: regexp where
  "colorPattern s =
    (case s of
       [] \<Rightarrow> None
     | b # rest \<Rightarrow>
        if b \<noteq> 0x5B then None
        else
          let name = takeWhile isLetter rest in
          if name \<noteq> [] \<and> take 1 (dropWhile isLetter rest) = [0x5D]
          then Some (length name + 2, [take (length name + 2) s, name])
          else if take 1 rest = [0x23] \<and> length (take 6 (drop 1 rest)) = 6
                  \<and> list_all isHexDigit (take 6 (drop 1 rest)) \<and> take 1 (drop 7 rest) = [0x5D]
          then Some (9, [take 9 s, take 7 rest])
          else None)"

definition regionPattern :: regexp where
  "regionPattern s =
    (case s of
       b0 # b1 # rest \<Rightarrow>
        if b0 = 0x5B \<and> b1 = 0x22 \<and> take 2 (dropWhile isRegionChar rest) = [0x22, 0x5D]
        then let rid = takeWhile isRegionChar rest
             in Some (length rid + 4, [take (length rid + 4) s, rid])
        else None
     | _ \<Rightarrow> None)"

definition spacePattern :: regexp where
  "spacePattern s =
    (let run = takeWhile isSpace s
     in if run = [] then None else Some (length run, [run]))"

definition boundaryPattern :: regexp where
  "boundaryPattern s =
    (case s of
       [] \<Rightarrow> None
     | b # rest \<Rightarrow>
        if isPunct b
        then let m = b # takeWhile isSpace rest in Some (length m, [m, m])
        else let run = takeWhile isSpace s
             in if run = [] then None else Some (length run, [run, run]))"

section \<open>Runes and their widths\<close>

text \<open>
  \<open>rangeString pos skip s\<close> is Go's \<open>range\<close> over a string: the runes of the text with
  the byte offsets at which they start, an invalid byte giving \<open>RuneError\<close> and advancing
  one byte. \<open>runes\<close> is the conversion \<open>[]rune(s)\<close>, \<open>EncodeRune\<close> the encoder behind
  \<open>string(r)\<close> and \<open>WriteRune\<close>.
\<close>

fun rangeString :: "nat \<Rightarrow> nat \<Rightarrow> gostring \<Rightarrow> (nat \<times> rune) list" where
  "rangeString pos skip [] = []"
| "rangeString pos skip (b # bs) =
    (if 0 < skip then rangeString (Suc pos) (skip - 1) bs
     else (pos, fst (DecodeRune (b # bs)))
            # rangeString (Suc pos) (snd (DecodeRune (b # bs)) - 1) bs)"

definition runes :: "gostring \<Rightarrow> rune list" where
  "runes s = map snd (rangeString 0 0 s)"

definition EncodeRune :: "rune \<Rightarrow> gostring" where
  "EncodeRune r =
    (if r \<le> 0x7F then [r]
     else if r \<le> 0x7FF then [0xC0 + r div 64, 0x80 + r mod 64]
     else if 0x10FFFF < r \<or> (0xD800 \<le> r \<and> r \<le> 0xDFFF) then [0xEF, 0xBF, 0xBD]
     else if r \<le> 0xFFFF then [0xE0 + r div 4096, 0x80 + (r div 64) mod 64, 0x80 + r mod 64]
     else [0xF0 + r div 262144, 0x80 + (r div 4096) mod 64, 0x80 + (r div 64) mod 64,
           0x80 + r mod 64])"

definition encodeRunes :: "rune list \<Rightarrow> gostring" where
  "encodeRunes rs = concat (map EncodeRune rs)"

text \<open>
  The environment of the text view: the width table of the package runewidth (it depends
  on the locale, and is a function from runes to 0, 1 or 2 columns), the colour lookup
  \<open>tcell.GetColor\<close>, and the escape pattern.
\<close>

record env =
  RuneWidth :: "rune \<Rightarrow> nat"
  GetColor :: "gostring \<Rightarrow> color"
  escapePattern :: regexp

definition StringWidth :: "env \<Rightarrow> gostring \<Rightarrow> int" where
  "StringWidth e s = int (sum_list (map (RuneWidth e) (runes s)))"

text \<open>
  The loop of \<open>runewidth.Truncate\<close>: the number of leading runes whose widths add up to
  at most \<open>w\<close>.
\<close>

fun truncateCount :: "env \<Rightarrow> int \<Rightarrow> int \<Rightarrow> rune list \<Rightarrow> nat" where
  "truncateCount e w width [] = 0"
| "truncateCount e w width (r # rs) =
    (let cw = int (RuneWidth e r)
     in if w < width + cw then 0 else Suc (truncateCount e w (width + cw) rs))"

text \<open>\<open>runewidth.Truncate(s, w, "")\<close>: the text itself when it fits, else the leading runes
  that fit, encoded again.\<close>

definition Truncate :: "env \<Rightarrow> gostring \<Rightarrow> int \<Rightarrow> gostring" where
  "Truncate e s w =
    (if StringWidth e s \<le> w then s
     else let r = runes s in encodeRunes (take (truncateCount e w 0 r) r))"

section \<open>The line indexer: reindexBuffer\<close>

text \<open>
  A function that may panic or not return has a result of type \<open>'a result\<close>: \<open>None\<close>
  when the call does not return, \<open>Some (Inl p)\<close> when it panics, \<open>Some (Inr x)\<close> when it
  returns \<open>x\<close>.
\<close>

type_synonym 'a result = "(panic + 'a) option"

text \<open>
  \<open>s[a:b]\<close> on a Go string panics unless \<open>a \<le> b \<le> len(s)\<close>.
\<close>

definition slice :: "gostring \<Rightarrow> nat \<Rightarrow> nat \<Rightarrow> panic + gostring" where
  "slice s a b =
    (if a \<le> b \<and> b \<le> length s then Inr (take (b - a) (drop a s))
     else Inl SliceBoundsOutOfRange)"

text \<open>
  One pass of the body of the loop \<open>for len(str) > 0\<close>: the piece \<open>extract\<close> carved from
  the front of \<open>str\<close>. With word wrap, when the cut falls inside the text, the piece is
  first extended through the white space that follows it and then cut back to the end of
  the last boundary match in it.
\<close>

definition extractLine :: "env \<Rightarrow> int \<Rightarrow> bool \<Rightarrow> gostring \<Rightarrow> gostring" where
  "extractLine e width ww str =
    (let extract = Truncate e str width
     in if ww \<and> length extract < length str
        then
          let extract =
                (case FindAll spacePattern 0 0 (drop (length extract) str) of
                   spaces # _ \<Rightarrow>
                     if mStart spaces = 0 then take (length extract + mEnd spaces) str
                     else extract
                 | [] \<Rightarrow> extract);
              matches = FindAll boundaryPattern 0 0 extract
          in if 0 < length matches then take (mEnd (last matches)) extract else extract
        else extract)"

text \<open>
  The loop itself. \<open>str = str[len(extract):]\<close> panics when the piece is longer than the
  text that is left (the piece \<open>Truncate\<close> returns is encoded anew, and is longer than the
  bytes it stands for when these are not valid UTF-8). When the piece is empty the text
  stays as it is and the loop runs on for ever: the function has no value there.
\<close>

partial_function (option) splitLines :: "env \<Rightarrow> int \<Rightarrow> bool \<Rightarrow> gostring \<Rightarrow> gostring list result" where
  "splitLines e width ww str =
    (if str = [] then Some (Inr [])
     else
       let extract = extractLine e width ww str
       in if length str < length extract then Some (Inl SliceBoundsOutOfRange)
          else Option.bind (splitLines e width ww (drop (length extract) str))
                 (\<lambda>r. case r of
                        Inl p \<Rightarrow> Some (Inl p)
                      | Inr rest \<Rightarrow> Some (Inr (extract # rest))))"

text \<open>
  The state carried through the building of the index: the offset into the original line
  and the positions in the three tag lists (reset for every line of the buffer), the
  current colour and region, and the three fields of the view that the loop writes,
  \<open>t.index\<close>, \<open>t.fromHighlight\<close> and \<open>t.toHighlight\<close> (primed here; \<open>reindexBuffer\<close>
  stores them in the view when the loop is done). What the loop only reads of the view,
  its flags, its highlights and its buffer, is passed as it is.
\<close>

record indexer =
  originalPos :: nat
  colorPos :: nat
  regionPos :: nat
  escapePos :: nat
  curColor :: color
  regionID :: gostring
  index' :: "textViewIndex list"
  fromHighlight' :: int
  toHighlight' :: int

text \<open>
  The inner \<open>for\<close> loop, "Shift original position with tags": as long as a tag starts at
  or before the end of the piece, add its length to the offset and apply it. The three
  branches of the loop are \<open>applyColorTag\<close>, \<open>applyRegionTag\<close> (which also extends the
  highlight range) and \<open>applyEscapeTag\<close>; \<open>tagsLeft\<close> counts the tags not yet
  applied.
\<close>

definition applyColorTag :: "env \<Rightarrow> match \<Rightarrow> indexer \<Rightarrow> indexer" where
  "applyColorTag e m st =
    st\<lparr>originalPos := originalPos st + (mEnd m - mStart m),
       curColor := GetColor e (group m 1),
       colorPos := Suc (colorPos st)\<rparr>"

definition applyRegionTag :: "gostring set \<Rightarrow> match \<Rightarrow> indexer \<Rightarrow> indexer" where
  "applyRegionTag hl m st =
    (let st = st\<lparr>originalPos := originalPos st + (mEnd m - mStart m),
                  regionID := group m 1\<rparr>;
         highlighted = (regionID st \<in> hl);
         line = int (length (index' st));
         st = (if highlighted
               then (if fromHighlight' st < 0
                     then st\<lparr>fromHighlight' := line, toHighlight' := line\<rparr>
                     else if toHighlight' st < line then st\<lparr>toHighlight' := line\<rparr>
                     else st)
               else st)
     in st\<lparr>regionPos := Suc (regionPos st)\<rparr>)"

definition applyEscapeTag :: "indexer \<Rightarrow> indexer" where
  "applyEscapeTag st = st\<lparr>originalPos := Suc (originalPos st), escapePos := Suc (escapePos st)\<rparr>"

definition tagsLeft :: "match list \<Rightarrow> match list \<Rightarrow> match list \<Rightarrow> indexer \<Rightarrow> nat" where
  "tagsLeft colorTags regionTags escapeTags st =
    (length colorTags - colorPos st) + (length regionTags - regionPos st)
      + (length escapeTags - escapePos st)"

function shiftTags ::
    "env \<Rightarrow> gostring set \<Rightarrow> match list \<Rightarrow> match list \<Rightarrow> match list \<Rightarrow> nat \<Rightarrow> indexer
      \<Rightarrow> indexer" where
  "shiftTags e hl colorTags regionTags escapeTags lineLength st =
    (if colorPos st < length colorTags
        \<and> mStart (colorTags ! colorPos st) \<le> originalPos st + lineLength
     then shiftTags e hl colorTags regionTags escapeTags lineLength
            (applyColorTag e (colorTags ! colorPos st) st)
     else if regionPos st < length regionTags
        \<and> mStart (regionTags ! regionPos st) \<le> originalPos st + lineLength
     then shiftTags e hl colorTags regionTags escapeTags lineLength
            (applyRegionTag hl (regionTags ! regionPos st) st)
     else if escapePos st < length escapeTags
        \<and> mStart (escapeTags ! escapePos st) \<le> originalPos st + lineLength
     then shiftTags e hl colorTags regionTags escapeTags lineLength (applyEscapeTag st)
     else st)"
  by pat_completeness auto
termination
proof (relation "measure (\<lambda>(e, hl, colorTags, regionTags, escapeTags, lineLength, st).
        tagsLeft colorTags regionTags escapeTags st)", goal_cases)
  case 1
  show ?case by simp
next
  case (2 e hl colorTags regionTags escapeTags lineLength st)
  then show ?case by (auto simp add: tagsLeft_def applyColorTag_def)
next
  case (3 e hl colorTags regionTags escapeTags lineLength st)
  then show ?case by (auto simp add: tagsLeft_def applyRegionTag_def Let_def)
next
  case (4 e hl colorTags regionTags escapeTags lineLength st)
  then show ?case by (auto simp add: tagsLeft_def applyEscapeTag_def)
qed

declare shiftTags.simps [simp del]

text \<open>
  The body of "Create index from split lines" for one piece: the entry starts at the
  current offset with the current colour and region, and ends after the tags and the
  piece.
\<close>

definition indexSplitLine ::
    "env \<Rightarrow> gostring set \<Rightarrow> match list \<Rightarrow> match list \<Rightarrow> match list \<Rightarrow> nat \<Rightarrow> indexer
      \<Rightarrow> gostring \<Rightarrow> indexer" where
  "indexSplitLine e hl colorTags regionTags escapeTags bufferIndex st splitLine =
    (let line = \<lparr>Line = bufferIndex, Pos = originalPos st, NextPos = 0, Width = 0,
                 Color = curColor st, Region = regionID st\<rparr>;
         lineLength = length splitLine;
         st = shiftTags e hl colorTags regionTags escapeTags lineLength st;
         st = st\<lparr>originalPos := originalPos st + lineLength\<rparr>;
         line = line\<lparr>NextPos := originalPos st, Width := StringWidth e splitLine\<rparr>
     in st\<lparr>index' := index' st @ [line]\<rparr>)"

text \<open>
  "Word-wrapped lines may have trailing whitespace. Remove it.": for one entry of the
  index, when the last white space of its text ends the text, the entry ends before it
  and loses its width. The loop runs over the whole index after every line of the buffer.
\<close>

definition trimLine :: "env \<Rightarrow> gostring list \<Rightarrow> textViewIndex \<Rightarrow> panic + textViewIndex" where
  "trimLine e buf line =
    (if length buf \<le> Line line then Inl IndexOutOfRange
     else
       case slice (buf ! Line line) (Pos line) (NextPos line) of
         Inl p \<Rightarrow> Inl p
       | Inr str \<Rightarrow>
          let spaces = FindAll spacePattern 0 0 str
          in if spaces \<noteq> [] \<and> mEnd (last spaces) = length str
             then
               let oldNextPos = NextPos line;
                   line = line\<lparr>NextPos := NextPos line - (mEnd (last spaces) - mStart (last spaces))\<rparr>
               in (case slice (buf ! Line line) (NextPos line) oldNextPos of
                     Inl p \<Rightarrow> Inl p
                   | Inr removed \<Rightarrow> Inr (line\<lparr>Width := Width line - StringWidth e removed\<rparr>))
             else Inr line)"

fun trimLines :: "env \<Rightarrow> gostring list \<Rightarrow> textViewIndex list \<Rightarrow> panic + textViewIndex list" where
  "trimLines e buf [] = Inr []"
| "trimLines e buf (line # lines) =
    (case trimLine e buf line of
       Inl p \<Rightarrow> Inl p
     | Inr line' \<Rightarrow>
        (case trimLines e buf lines of
           Inl p \<Rightarrow> Inl p
         | Inr lines' \<Rightarrow> Inr (line' # lines')))"

text \<open>
  The body of the loop over the buffer for the line \<open>str\<close> at \<open>bufferIndex\<close> of the view
  \<open>t\<close>. The state \<open>st\<close> holds the colour and region the line starts with and the index
  built so far; its offsets are set to zero for the line.
\<close>

definition reindexLine ::
    "env \<Rightarrow> int \<Rightarrow> TextView \<Rightarrow> nat \<Rightarrow> gostring \<Rightarrow> indexer \<Rightarrow> indexer result" where
  "reindexLine e width t bufferIndex str st =
    (let colorTags = (if dynamicColors t then FindAll colorPattern 0 0 str else []);
         str = (if dynamicColors t then ReplaceAll colorTags (\<lambda>m. []) 0 str else str);
         regionTags = (if regions t then FindAll regionPattern 0 0 str else []);
         str = (if regions t then ReplaceAll regionTags (\<lambda>m. []) 0 str else str);
         escapeTags = (if dynamicColors t \<or> regions t
                       then FindAll (escapePattern e) 0 0 str else []);
         str = (if dynamicColors t \<or> regions t
                then ReplaceAll escapeTags escapeTemplate 0 str else str)
     in Option.bind
          (if wrap t \<and> 0 < length str then splitLines e width (wordWrap t) str
           else Some (Inr [str]))
          (\<lambda>r. case r of
             Inl p \<Rightarrow> Some (Inl p)
           | Inr splits \<Rightarrow>
              let st = st\<lparr>originalPos := 0, colorPos := 0, regionPos := 0, escapePos := 0\<rparr>;
                  st = foldl (indexSplitLine e (highlights t) colorTags regionTags escapeTags
                                bufferIndex) st splits
              in if wrap t \<and> wordWrap t
                 then (case trimLines e (buffer t) (index' st) of
                         Inl p \<Rightarrow> Some (Inl p)
                       | Inr idx \<Rightarrow> Some (Inr (st\<lparr>index' := idx\<rparr>)))
                 else Some (Inr st)))"

text \<open>The loop \<open>for bufferIndex, str := range t.buffer\<close>.\<close>

fun reindexLines ::
    "env \<Rightarrow> int \<Rightarrow> TextView \<Rightarrow> nat \<Rightarrow> gostring list \<Rightarrow> indexer \<Rightarrow> indexer result" where
  "reindexLines e width t bufferIndex [] st = Some (Inr st)"
| "reindexLines e width t bufferIndex (str # strs) st =
    (case reindexLine e width t bufferIndex str st of
       None \<Rightarrow> None
     | Some (Inl p) \<Rightarrow> Some (Inl p)
     | Some (Inr st') \<Rightarrow> reindexLines e width t (Suc bufferIndex) strs st')"

text \<open>"Calculate longest line."\<close>

definition longestWidth :: "textViewIndex list \<Rightarrow> int" where
  "longestWidth idx =
    foldl (\<lambda>longest line. if longest < Width line then Width line else longest) 0 idx"

definition reindexBuffer :: "env \<Rightarrow> int \<Rightarrow> TextView \<Rightarrow> TextView result" where
  "reindexBuffer e width t =
    (if index t \<noteq> [] then Some (Inr t)
     else
       let t = t\<lparr>index := [], fromHighlight := -1, toHighlight := -1\<rparr>
       in if width < 1 then Some (Inr t)
          else
            (case reindexLines e width t 0 (buffer t)
                    \<lparr>originalPos = 0, colorPos = 0, regionPos = 0, escapePos = 0,
                     curColor = textColor t, regionID = [],
                     index' = [], fromHighlight' = -1, toHighlight' = -1\<rparr> of
               None \<Rightarrow> None
             | Some (Inl p) \<Rightarrow> Some (Inl p)
             | Some (Inr st) \<Rightarrow>
                 Some (Inr (t\<lparr>index := index' st, fromHighlight := fromHighlight' st,
                              toHighlight := toHighlight' st,
                              longestLine := longestWidth (index' st)\<rparr>))))"

section \<open>The setters the scenarios use\<close>

definition SetWordWrap :: "bool \<Rightarrow> TextView \<Rightarrow> TextView" where
  "SetWordWrap wrapOnWords t =
    (let t = (if wordWrap t \<noteq> wrapOnWords then t\<lparr>index := []\<rparr> else t)
     in t\<lparr>wordWrap := wrapOnWords\<rparr>)"

definition SetRegions :: "bool \<Rightarrow> TextView \<Rightarrow> TextView" where
  "SetRegions r t =
    (let t = (if regions t \<noteq> r then t\<lparr>index := []\<rparr> else t)
     in t\<lparr>regions := r\<rparr>)"

definition Highlight :: "gostring list \<Rightarrow> TextView \<Rightarrow> TextView" where
  "Highlight regionIDs t =
    t\<lparr>highlights := set (filter (\<lambda>rid. rid \<noteq> []) regionIDs), index := []\<rparr>"

definition ScrollToHighlight :: "TextView \<Rightarrow> TextView" where
  "ScrollToHighlight t =
    (if highlights t = {} \<or> \<not> scrollable t \<or> \<not> regions t then t
     else t\<lparr>index := [], scrollToHighlights := True, trackEnd := False\<rparr>)"

section \<open>The viewport: Draw\<close>

text \<open>Go's integer division truncates towards zero.\<close>

definition goDiv :: "int \<Rightarrow> int \<Rightarrow> int" where
  "goDiv a b = sgn a * sgn b * (\<bar>a\<bar> div \<bar>b\<bar>)"

text \<open>
  \<open>Draw\<close>, block by block. First the index is made current for the width of the inner
  rectangle: "If the width has changed, we need to reindex", then "Re-index".
\<close>

definition drawReindex :: "env \<Rightarrow> int \<Rightarrow> TextView \<Rightarrow> TextView result" where
  "drawReindex e width t =
    (let t = (if width \<noteq> lastWidth t then t\<lparr>index := []\<rparr> else t);
         t = t\<lparr>lastWidth := width\<rparr>
     in reindexBuffer e width t)"

text \<open>"Move to highlighted regions."; the flag is cleared whether or not the view moved.\<close>

definition moveToHighlights :: "int \<Rightarrow> TextView \<Rightarrow> TextView" where
  "moveToHighlights height t =
    (let t = (if regions t \<and> scrollToHighlights t \<and> 0 \<le> fromHighlight t
              then (if toHighlight t - fromHighlight t + 1 < height
                    then t\<lparr>lineOffset := goDiv (fromHighlight t + toHighlight t - height) 2\<rparr>
                    else t\<lparr>lineOffset := fromHighlight t\<rparr>)
              else t)
     in t\<lparr>scrollToHighlights := False\<rparr>)"

text \<open>
  Go's \<open>int\<close> has 64 bits here, and its sums and differences wrap around. \<open>intRange x\<close>
  says that \<open>x\<close> is a value of the type, and \<open>wrapInt x\<close> is what an \<open>int\<close> holds when the
  exact result of the operation is \<open>x\<close>. The offsets and the height of the rectangle are
  such values. (The highlight move above is written with exact arithmetic: its operands
  are positions in the index and a height that exceeds their distance.)
\<close>

definition intRange :: "int \<Rightarrow> bool" where
  "intRange x = (- 9223372036854775808 \<le> x \<and> x \<le> 9223372036854775807)"

definition wrapInt :: "int \<Rightarrow> int" where
  "wrapInt x = (x + 9223372036854775808) mod 18446744073709551616 - 9223372036854775808"

text \<open>"Adjust line offset."\<close>

definition adjustLineOffset :: "int \<Rightarrow> TextView \<Rightarrow> TextView" where
  "adjustLineOffset height t =
    (let t = (if int (length (index t)) < wrapInt (lineOffset t + height)
              then t\<lparr>trackEnd := True\<rparr> else t);
         t = (if trackEnd t
              then t\<lparr>lineOffset := wrapInt (int (length (index t)) - height)\<rparr> else t)
     in (if lineOffset t < 0 then t\<lparr>lineOffset := 0\<rparr> else t))"

text \<open>"Adjust column offset."\<close>

definition adjustColumnOffset :: "int \<Rightarrow> TextView \<Rightarrow> TextView" where
  "adjustColumnOffset width t =
    (if align t = AlignLeft then
       (let t = (if longestLine t < wrapInt (columnOffset t + width)
                 then t\<lparr>columnOffset := wrapInt (longestLine t - width)\<rparr> else t)
        in (if columnOffset t < 0 then t\<lparr>columnOffset := 0\<rparr> else t))
     else if align t = AlignRight then
       (let t = (if wrapInt (columnOffset t - width) < wrapInt (- longestLine t)
                 then t\<lparr>columnOffset := wrapInt (width - longestLine t)\<rparr> else t)
        in (if 0 < columnOffset t then t\<lparr>columnOffset := 0\<rparr> else t))
     else
       (let half = goDiv (wrapInt (longestLine t - width)) 2
        in if 0 < half
           then (let t = (if half < columnOffset t then t\<lparr>columnOffset := half\<rparr> else t)
                 in (if columnOffset t < - half then t\<lparr>columnOffset := - half\<rparr> else t))
           else t\<lparr>columnOffset := 0\<rparr>))"

text \<open>
  "Draw the buffer.": the loop paints the lines from \<open>lineOffset\<close> on, at most \<open>height\<close>
  of them. Painting changes the screen only; what the model keeps of it is the text of
  each line, \<open>t.buffer[index.Line][index.Pos:index.NextPos]\<close>, whose slice can panic.
\<close>

fun lineTexts :: "gostring list \<Rightarrow> textViewIndex list \<Rightarrow> panic + gostring list" where
  "lineTexts buf [] = Inr []"
| "lineTexts buf (ix # ixs) =
    (if length buf \<le> Line ix then Inl IndexOutOfRange
     else (case slice (buf ! Line ix) (Pos ix) (NextPos ix) of
             Inl p \<Rightarrow> Inl p
           | Inr text \<Rightarrow>
              (case lineTexts buf ixs of
                 Inl p \<Rightarrow> Inl p
               | Inr texts \<Rightarrow> Inr (text # texts))))"

definition drawBuffer :: "int \<Rightarrow> TextView \<Rightarrow> panic + gostring list" where
  "drawBuffer height t =
    lineTexts (buffer t) (take (nat height) (drop (nat (lineOffset t)) (index t)))"

text \<open>
  "If this view is not scrollable, we'll purge the buffer of lines that have scrolled out
  of view."
\<close>

definition purgeBuffer :: "TextView \<Rightarrow> panic + TextView" where
  "purgeBuffer t =
    (if \<not> scrollable t \<and> 0 < lineOffset t
     then (if int (length (index t)) \<le> lineOffset t then Inl IndexOutOfRange
           else let first = Line (index t ! nat (lineOffset t))
                in if length (buffer t) < first then Inl SliceBoundsOutOfRange
                   else Inr (t\<lparr>buffer := drop first (buffer t), index := []\<rparr>))
     else Inr t)"

text \<open>
  \<open>Draw\<close> for an inner rectangle of the given width and height (\<open>GetInnerRect\<close>; both may
  be zero or negative for a small box).
\<close>

definition Draw :: "env \<Rightarrow> int \<Rightarrow> int \<Rightarrow> TextView \<Rightarrow> TextView result" where
  "Draw e width height t =
    (case drawReindex e width (t\<lparr>pageSize := height\<rparr>) of
       None \<Rightarrow> None
     | Some (Inl p) \<Rightarrow> Some (Inl p)
     | Some (Inr t) \<Rightarrow>
        if index t = [] then Some (Inr t)
        else
          let t = moveToHighlights height t;
              t = adjustLineOffset height t;
              t = adjustColumnOffset width t
          in (case drawBuffer height t of
                Inl p \<Rightarrow> Some (Inl p)
              | Inr texts \<Rightarrow> Some (purgeBuffer t)))"

section \<open>The region extractor: GetRegionText\<close>





section \<open>The round trip, as the spec words it\<close>





section \<open>A region in the buffer, as the spec words it\<close>




definition reencode :: "gostring \<Rightarrow> gostring" where
  "reencode s = encodeRunes (runes s)"

text \<open>
  \<open>validUTF8 s\<close>: the text is valid UTF-8, as \<open>utf8.ValidString\<close> has it. No step of the
  decoder over the text meets an invalid byte, which \<open>DecodeRune\<close> reports as \<open>RuneError\<close>
  with size 1. \<open>skip\<close> counts the bytes of the last rune still to be passed.
\<close>

fun validFrom :: "nat \<Rightarrow> gostring \<Rightarrow> bool" where
  "validFrom skip [] = True"
| "validFrom skip (b # bs) =
    (if 0 < skip then validFrom (skip - 1) bs
     else \<not> (fst (DecodeRune (b # bs)) = RuneError \<and> snd (DecodeRune (b # bs)) = 1)
          \<and> validFrom (snd (DecodeRune (b # bs)) - 1) bs)"

definition validUTF8 :: "gostring \<Rightarrow> bool" where
  "validUTF8 s = validFrom 0 s"

section \<open>Facts about the decoder\<close>

lemma DecodeRune_size_le: "snd (DecodeRune q) \<le> 4"
  by (simp add: DecodeRune_def Let_def split: list.split firstInfo.split)

lemma first_cont: "\<not> RuneStart b \<Longrightarrow> first b = XX"
  by (simp add: RuneStart_def first_def)

lemma DecodeRune_cont: "\<not> RuneStart b \<Longrightarrow> DecodeRune (b # q) = (RuneError, 1)"
  by (simp add: DecodeRune_def first_cont)

lemma DecodeRune_single: "fst (DecodeRune [b]) = RuneError \<or> b < 0x80"
  by (cases "first b") (auto simp add: DecodeRune_def first_def split: if_splits)


lemma lastRuneStart_stop: "\<not> lim \<le> start \<Longrightarrow> lastRuneStart p start lim = start"
  by (subst lastRuneStart.simps) simp

lemma lastRuneStart_break:
  "lim \<le> start \<Longrightarrow> RuneStart (p ! nat start) \<Longrightarrow> lastRuneStart p start lim = start"
  by (subst lastRuneStart.simps) simp

lemma lastRuneStart_step:
  "lim \<le> start \<Longrightarrow> \<not> RuneStart (p ! nat start) \<Longrightarrow>
   lastRuneStart p start lim = lastRuneStart p (start - 1) lim"
  by (subst lastRuneStart.simps) simp

lemma lastRuneStart_append:
  "lim \<le> lastRuneStart p s lim \<Longrightarrow> 0 \<le> lim \<Longrightarrow>
   lim' \<le> lim + int (length rb) \<Longrightarrow>
   lastRuneStart (rb @ p) (s + int (length rb)) lim' = lastRuneStart p s lim + int (length rb)"
proof (induction p s lim rule: lastRuneStart.induct)
  case (1 p start lim)
  show ?case
  proof (cases "lim \<le> start")
    case True
    have nth: "(rb @ p) ! nat (start + int (length rb)) = p ! nat start"
      using True "1.prems"(2) by (simp add: nth_append nat_add_distrib)
    have le: "lim' \<le> start + int (length rb)"
      using True "1.prems"(3) by simp
    show ?thesis
    proof (cases "RuneStart (p ! nat start)")
      case rs: True
      have "lastRuneStart (rb @ p) (start + int (length rb)) lim' = start + int (length rb)"
        using le rs nth by (simp add: lastRuneStart_break)
      then show ?thesis using True rs by (simp add: lastRuneStart_break)
    next
      case rs: False
      have a: "lastRuneStart p start lim = lastRuneStart p (start - 1) lim"
        using True rs by (rule lastRuneStart_step)
      have "lastRuneStart (rb @ p) (start + int (length rb)) lim'
             = lastRuneStart (rb @ p) (start + int (length rb) - 1) lim'"
        using le rs nth by (simp add: lastRuneStart_step)
      then have b: "lastRuneStart (rb @ p) (start + int (length rb)) lim'
             = lastRuneStart (rb @ p) (start - 1 + int (length rb)) lim'"
        by (simp add: algebra_simps)
      have "lastRuneStart (rb @ p) (start - 1 + int (length rb)) lim'
             = lastRuneStart p (start - 1) lim + int (length rb)"
        using "1.IH"[OF True rs] "1.prems" a by simp
      then show ?thesis using a b by simp
    qed
  next
    case False
    then have "lastRuneStart p start lim = start" by (rule lastRuneStart_stop)
    then show ?thesis using False "1.prems" by simp
  qed
qed

lemma lastRuneStart_nobreak:
  "lastRuneStart p s lim < lim \<Longrightarrow> lim \<le> s + 1 \<Longrightarrow>
   lastRuneStart p s lim = lim - 1 \<and> (\<forall>j. lim \<le> j \<and> j \<le> s \<longrightarrow> \<not> RuneStart (p ! nat j))"
proof (induction p s lim rule: lastRuneStart.induct)
  case (1 p start lim)
  show ?case
  proof (cases "lim \<le> start")
    case True
    show ?thesis
    proof (cases "RuneStart (p ! nat start)")
      case rs: True
      then have "lastRuneStart p start lim = start" using True by (simp add: lastRuneStart_break)
      then show ?thesis using "1.prems" True by simp
    next
      case rs: False
      have a: "lastRuneStart p start lim = lastRuneStart p (start - 1) lim"
        using True rs by (rule lastRuneStart_step)
      have ih: "lastRuneStart p (start - 1) lim = lim - 1 \<and>
                (\<forall>j. lim \<le> j \<and> j \<le> start - 1 \<longrightarrow> \<not> RuneStart (p ! nat j))"
        using "1.IH"[OF True rs] "1.prems" a True by simp
      have "\<not> RuneStart (p ! nat j)" if "lim \<le> j" "j \<le> start" for j
        using that ih rs by (cases "j = start") auto
      then show ?thesis using a ih by simp
    qed
  next
    case False
    then have "lastRuneStart p start lim = start" by (rule lastRuneStart_stop)
    then show ?thesis using False "1.prems" by auto
  qed
qed


lemma DecodeLastRune_multi:
  "p \<noteq> [] \<Longrightarrow> \<not> last p < RuneSelf \<Longrightarrow>
   DecodeLastRune p =
     (let s0 = lastRuneStart p (int (length p) - 2) (max 0 (int (length p) - UTFMax));
          start = (if s0 < 0 then 0 else s0);
          rs = DecodeRune (drop (nat start) p)
      in if start + int (snd rs) \<noteq> int (length p) then (RuneError, 1) else rs)"
  by (cases p) (simp_all add: DecodeLastRune_def Let_def split: prod.split)

lemma DecodeLastRune_append:
  assumes ok: "fst (DecodeLastRune p) \<noteq> RuneError"
  shows "DecodeLastRune (rb @ p) = DecodeLastRune p"
proof -
  have ne: "p \<noteq> []"
    using ok by (auto simp: DecodeLastRune_def)
  show ?thesis
  proof (cases "last p < RuneSelf")
    case True
    then show ?thesis using ne by (cases p) (simp_all add: DecodeLastRune_def Let_def)
  next
    case False
    define n where "n = int (length p)"
    define k where "k = int (length rb)"
    define lim where "lim = max 0 (n - UTFMax)"
    define lim' where "lim' = max 0 (n + k - UTFMax)"
    define s0 where "s0 = lastRuneStart p (n - 2) lim"
    have n1: "1 \<le> n" using ne by (cases p) (simp_all add: n_def)
    have lim0: "0 \<le> lim" by (simp add: lim_def)
    have unf: "DecodeLastRune p =
        (let start = (if s0 < 0 then 0 else s0); rs = DecodeRune (drop (nat start) p)
         in if start + int (snd rs) \<noteq> n then (RuneError, 1) else rs)"
      using DecodeLastRune_multi[OF ne False] by (simp add: s0_def lim_def n_def)
    have brk: "lim \<le> s0"
    proof (rule ccontr)
      assume "\<not> lim \<le> s0"
      then have lt: "lastRuneStart p (n - 2) lim < lim" by (simp add: s0_def)
      have le: "lim \<le> n - 2 + 1" using n1 by (simp add: lim_def UTFMax_def)
      from lastRuneStart_nobreak[OF lt le]
      have s0': "s0 = lim - 1"
        and cont: "\<And>j. lim \<le> j \<Longrightarrow> j \<le> n - 2 \<Longrightarrow> \<not> RuneStart (p ! nat j)"
        by (auto simp: s0_def)
      have "fst (DecodeLastRune p) = RuneError"
      proof (cases "n \<le> 4")
        case small: True
        then have l0: "lim = 0" by (simp add: lim_def UTFMax_def)
        obtain b q where pq: "p = b # q" using ne by (cases p) auto
        have dr: "fst (DecodeRune p) = RuneError"
        proof (cases "q = []")
          case True
          then show ?thesis using DecodeRune_single[of b] False pq by (auto simp: RuneSelf_def)
        next
          case q: False
          then have "2 \<le> n" using pq by (cases q) (simp_all add: n_def)
          then have "\<not> RuneStart (p ! nat 0)" using cont[of 0] l0 by simp
          then show ?thesis using pq by (simp add: DecodeRune_cont)
        qed
        show ?thesis
          using dr s0' l0 by (simp add: unf Let_def)
      next
        case big: False
        then have l5: "lim = n - 4" by (simp add: lim_def UTFMax_def)
        have sz: "snd (DecodeRune (drop (nat (n - 5)) p)) \<le> 4" by (rule DecodeRune_size_le)
        show ?thesis
          using s0' l5 big sz by (simp add: unf Let_def)
      qed
      then show False using ok by simp
    qed
    have le': "lim' \<le> lim + k" by (simp add: lim_def lim'_def k_def)
    have "lastRuneStart (rb @ p) (n - 2 + k) lim' = s0 + k"
      using lastRuneStart_append[OF _ lim0, of p "n - 2" lim' rb] brk le'
      by (simp add: s0_def k_def)
    then have s0'': "lastRuneStart (rb @ p) (n + k - 2) lim' = s0 + k"
      by (simp add: algebra_simps)
    have s00: "0 \<le> s0" using brk lim0 by simp
    have dropeq: "drop (nat (s0 + k)) (rb @ p) = drop (nat s0) p"
      using s00 by (simp add: k_def nat_add_distrib)
    have ne': "rb @ p \<noteq> []" and last': "\<not> last (rb @ p) < RuneSelf"
      using ne False by simp_all
    have e3: "int (length (rb @ p)) = n + k" by (simp add: n_def k_def)
    have "DecodeLastRune (rb @ p) =
        (let start = (if s0 + k < 0 then 0 else s0 + k);
             rs = DecodeRune (drop (nat start) (rb @ p))
         in if start + int (snd rs) \<noteq> n + k then (RuneError, 1) else rs)"
      unfolding Let_def
      by (simp only: DecodeLastRune_multi[OF ne' last'] e3 lim'_def[symmetric] s0'' Let_def)
    then show ?thesis
      using s00 dropeq by (simp add: unf Let_def k_def)
  qed
qed

lemma DecodeLastRune_combined:
  "fst (DecodeLastRune (rb @ p)) = RuneError \<Longrightarrow> fst (DecodeLastRune p) = RuneError"
  by (cases "fst (DecodeLastRune p) = RuneError") (simp_all add: DecodeLastRune_append)


lemmas lastRuneStart_eval = lastRuneStart_stop lastRuneStart_break lastRuneStart_step
lemmas utf8_eval = DecodeLastRune_def DecodeRune_def first_def RuneStart_def RuneSelf_def
  RuneError_def UTFMax_def locb_def hicb_def Let_def


section \<open>Stream ingest\<close>

text \<open>
  Claim C9. \<open>Write\<close> accepts every input: for every byte slice \<open>p\<close> and every view, the
  call returns \<open>len(p)\<close> and a nil error, whatever the input holds (an incomplete rune, an
  open tag, malformed bytes). The tab size is the package's (a count of spaces, not
  negative).
\<close>

theorem Write_accepts_all:
  "0 \<le> TabSize \<Longrightarrow> \<exists>t'. Write TabSize p t = Inr (int (length p), None, t')"
  by (simp add: Write_def Let_def split: option.split prod.split)

theorem Write_accepts_all_witness:
  "(0::int) \<le> 4 \<and>
   (\<exists>t'. Write 4 (bytes ''ab[re'') ((NewTextView 0)\<lparr>dynamicColors := True\<rparr>) = Inr (5, None, t'))"
  using Write_accepts_all [of 4 "bytes ''ab[re''" "(NewTextView 0)\<lparr>dynamicColors := True\<rparr>"]
  by (simp add: bytes_def)

text \<open>
  Claim C10. When the bytes held over together with the new bytes end in an invalid or
  incomplete rune, \<open>Write\<close> stores all of them as the held-over bytes and returns: the
  buffer, the index and every other field of the view are as before.
\<close>

theorem Write_incomplete_rune_frame:
  "fst (DecodeLastRune (recentBytes t @ p)) = RuneError \<Longrightarrow>
   Write TabSize p t = Inr (int (length p), None, t\<lparr>recentBytes := recentBytes t @ p\<rparr>)"
  by (simp add: Write_def Let_def DecodeLastRune_combined)

theorem Write_incomplete_rune_frame_witness:
  "fst (DecodeLastRune (recentBytes ((NewTextView 0)\<lparr>recentBytes := bytes ''ab''\<rparr>)
          @ [0xE4, 0xB8])) = RuneError \<and>
   Write 4 [0xE4, 0xB8] ((NewTextView 0)\<lparr>recentBytes := bytes ''ab''\<rparr>)
     = Inr (2, None, (NewTextView 0)\<lparr>recentBytes := bytes ''ab'' @ [0xE4, 0xB8]\<rparr>)"
proof -
  have h: "fst (DecodeLastRune (recentBytes ((NewTextView 0)\<lparr>recentBytes := bytes ''ab''\<rparr>)
          @ [0xE4, 0xB8])) = RuneError"
    by (simp add: utf8_eval lastRuneStart_eval bytes_def)
  show ?thesis
    using h Write_incomplete_rune_frame [OF h, of 4] by simp
qed

text \<open>
  Claim C5 asks that a multi-byte character split across two calls of \<open>Write\<close> is in the
  buffer, whole, after the second call. \<open>Write\<close> decodes the last rune of the new bytes
  \<open>p\<close> alone, not of the held-over bytes followed by \<open>p\<close>. When the second call brings
  exactly the rest of the character (here U+00E9, the bytes C3 A9, one byte per call),
  its \<open>p\<close> ends in a continuation byte, which is no rune by itself: the second call holds
  the two bytes back again and the buffer stays empty. The character reaches the buffer
  only with a later call that ends in a complete rune.
\<close>

theorem Write_split_rune_held_back:
  "Write 4 [0xC3] (NewTextView 0) = Inr (1, None, (NewTextView 0)\<lparr>recentBytes := [0xC3]\<rparr>) \<and>
   Write 4 [0xA9] ((NewTextView 0)\<lparr>recentBytes := [0xC3]\<rparr>)
     = Inr (1, None, (NewTextView 0)\<lparr>recentBytes := [0xC3, 0xA9]\<rparr>) \<and>
   buffer ((NewTextView 0)\<lparr>recentBytes := [0xC3, 0xA9]\<rparr>) = [] \<and>
   Write 4 (bytes ''!'') ((NewTextView 0)\<lparr>recentBytes := [0xC3, 0xA9]\<rparr>)
     = Inr (1, None, (NewTextView 0)\<lparr>buffer := [[0xC3, 0xA9, 0x21]]\<rparr>)"
  by (simp add: Write_def utf8_eval lastRuneStart_eval NewTextView_def bytes_def replaceTabs_def)

section \<open>Evaluating the indexer\<close>

lemma splitLines_Nil: "splitLines e width ww [] = Some (Inr [])"
  by (subst splitLines.simps) simp

lemma splitLines_Cons:
  "splitLines e width ww (b # bs) =
    (let extract = extractLine e width ww (b # bs)
     in if length (b # bs) < length extract then Some (Inl SliceBoundsOutOfRange)
        else Option.bind (splitLines e width ww (drop (length extract) (b # bs)))
               (\<lambda>r. case r of
                      Inl p \<Rightarrow> Some (Inl p)
                    | Inr rest \<Rightarrow> Some (Inr (extract # rest))))"
  by (subst splitLines.simps) simp

lemma shiftTags_none: "shiftTags e hl [] [] [] lineLength st = st"
  by (subst shiftTags.simps) simp

lemma DecodeRune_ascii: "b < 0x80 \<Longrightarrow> DecodeRune (b # bs) = (b, 1)"
  by (simp add: DecodeRune_def first_def)

lemmas pattern_eval = spacePattern_def boundaryPattern_def isSpace_def isPunct_def
  mStart_def mEnd_def

lemmas width_eval = Truncate_def StringWidth_def runes_def encodeRunes_def EncodeRune_def
  DecodeRune_ascii

lemmas reindex_eval = reindexBuffer_def reindexLine_def indexSplitLine_def shiftTags_none
  trimLine_def slice_def longestWidth_def splitLines_Cons splitLines_Nil extractLine_def
  Let_def

lemma shiftTags_color:
  "colorPos st < length colorTags \<and>
     mStart (colorTags ! colorPos st) \<le> originalPos st + lineLength \<Longrightarrow>
   shiftTags e hl colorTags regionTags escapeTags lineLength st =
   shiftTags e hl colorTags regionTags escapeTags lineLength
     (applyColorTag e (colorTags ! colorPos st) st)"
  by (subst shiftTags.simps) simp

lemma shiftTags_region:
  "\<not> (colorPos st < length colorTags \<and>
     mStart (colorTags ! colorPos st) \<le> originalPos st + lineLength) \<Longrightarrow>
   regionPos st < length regionTags \<and>
     mStart (regionTags ! regionPos st) \<le> originalPos st + lineLength \<Longrightarrow>
   shiftTags e hl colorTags regionTags escapeTags lineLength st =
   shiftTags e hl colorTags regionTags escapeTags lineLength
     (applyRegionTag hl (regionTags ! regionPos st) st)"
  by (subst shiftTags.simps) auto

lemma shiftTags_escape:
  "\<not> (colorPos st < length colorTags \<and>
     mStart (colorTags ! colorPos st) \<le> originalPos st + lineLength) \<Longrightarrow>
   \<not> (regionPos st < length regionTags \<and>
     mStart (regionTags ! regionPos st) \<le> originalPos st + lineLength) \<Longrightarrow>
   escapePos st < length escapeTags \<and>
     mStart (escapeTags ! escapePos st) \<le> originalPos st + lineLength \<Longrightarrow>
   shiftTags e hl colorTags regionTags escapeTags lineLength st =
   shiftTags e hl colorTags regionTags escapeTags lineLength (applyEscapeTag st)"
  by (subst shiftTags.simps) auto

lemma shiftTags_stop:
  "\<not> (colorPos st < length colorTags \<and>
     mStart (colorTags ! colorPos st) \<le> originalPos st + lineLength) \<Longrightarrow>
   \<not> (regionPos st < length regionTags \<and>
     mStart (regionTags ! regionPos st) \<le> originalPos st + lineLength) \<Longrightarrow>
   \<not> (escapePos st < length escapeTags \<and>
     mStart (escapeTags ! escapePos st) \<le> originalPos st + lineLength) \<Longrightarrow>
   shiftTags e hl colorTags regionTags escapeTags lineLength st = st"
  by (subst shiftTags.simps) auto

lemmas shiftTags_eval = shiftTags_color shiftTags_region shiftTags_escape shiftTags_stop
  applyColorTag_def applyRegionTag_def applyEscapeTag_def group_def

lemmas tag_eval = colorPattern_def regionPattern_def isRegionChar_def isAlnum_def isLetter_def
  isDigit_def isHexDigit_def

lemmas setup_eval = bytes_def NewTextView_def SetRegions_def SetWordWrap_def Highlight_def
  ScrollToHighlight_def
lemmas drawReindex_eval = drawReindex_def reindex_eval width_eval pattern_eval shiftTags_eval
  tag_eval

section \<open>The line indexer\<close>

text \<open>
  Claim C1. With width 10, wrap and word wrap on and dynamic colours and regions off, the
  line "hello wonderful world" is carved into the three pieces "hello ", "wonderful " and
  "world", each at most 10 columns wide, and indexed as three entries; the trailing space
  of the first two pieces is left out of the entry's end offset and of its width (bytes
  0 to 5 with width 5, bytes 6 to 15 with width 9, bytes 16 to 21 with width 5). This
  holds for every width table that gives the letters and the space one column.
\<close>

theorem reindex_wrapping_scenario:
  assumes "\<forall>b \<in> set (bytes ''hello wonderful world''). RuneWidth e b = 1"
    and "buffer t = [bytes ''hello wonderful world'']" and "index t = []"
    and "wrap t" and "wordWrap t" and "\<not> dynamicColors t" and "\<not> regions t"
  shows "splitLines e 10 True (bytes ''hello wonderful world'')
           = Some (Inr [bytes ''hello '', bytes ''wonderful '', bytes ''world'']) \<and>
         list_all (\<lambda>piece. StringWidth e piece \<le> 10)
           [bytes ''hello '', bytes ''wonderful '', bytes ''world''] \<and>
         reindexBuffer e 10 t = Some (Inr (t\<lparr>index :=
             [\<lparr>Line = 0, Pos = 0, NextPos = 5, Width = 5, Color = textColor t, Region = []\<rparr>,
              \<lparr>Line = 0, Pos = 6, NextPos = 15, Width = 9, Color = textColor t, Region = []\<rparr>,
              \<lparr>Line = 0, Pos = 16, NextPos = 21, Width = 5, Color = textColor t, Region = []\<rparr>],
           fromHighlight := -1, toHighlight := -1, longestLine := 9\<rparr>))"
  using assms
  by (simp add: bytes_def reindex_eval width_eval pattern_eval)

theorem reindex_wrapping_scenario_witness:
  "list_all (\<lambda>b. RuneWidth \<lparr>RuneWidth = \<lambda>r. 1, GetColor = \<lambda>s. 0, escapePattern = \<lambda>s. None\<rparr> b = 1) (bytes ''hello wonderful world'') \<and>
   reindexBuffer \<lparr>RuneWidth = \<lambda>r. 1, GetColor = \<lambda>s. 0, escapePattern = \<lambda>s. None\<rparr> 10
       ((NewTextView 7)\<lparr>buffer := [bytes ''hello wonderful world''], wordWrap := True\<rparr>)
     = Some (Inr ((NewTextView 7)\<lparr>buffer := [bytes ''hello wonderful world''], wordWrap := True,
          index :=
             [\<lparr>Line = 0, Pos = 0, NextPos = 5, Width = 5, Color = 7, Region = []\<rparr>,
              \<lparr>Line = 0, Pos = 6, NextPos = 15, Width = 9, Color = 7, Region = []\<rparr>,
              \<lparr>Line = 0, Pos = 16, NextPos = 21, Width = 5, Color = 7, Region = []\<rparr>],
           fromHighlight := -1, toHighlight := -1, longestLine := 9\<rparr>))"
  using reindex_wrapping_scenario
    [of "\<lparr>RuneWidth = \<lambda>r. 1, GetColor = \<lambda>s. 0, escapePattern = \<lambda>s. None\<rparr>"
        "(NewTextView 7)\<lparr>buffer := [bytes ''hello wonderful world''], wordWrap := True\<rparr>"]
  by (simp add: NewTextView_def list_all_iff)

section \<open>The index is rebuilt only when it is stale\<close>

lemma reindexLine_reads:
  "dynamicColors t' = dynamicColors t \<Longrightarrow> regions t' = regions t \<Longrightarrow> wrap t' = wrap t \<Longrightarrow>
   wordWrap t' = wordWrap t \<Longrightarrow> highlights t' = highlights t \<Longrightarrow> buffer t' = buffer t \<Longrightarrow>
   reindexLine e width t' i str st = reindexLine e width t i str st"
  by (simp only: reindexLine_def)

lemma reindexLines_reads:
  "dynamicColors t' = dynamicColors t \<Longrightarrow> regions t' = regions t \<Longrightarrow> wrap t' = wrap t \<Longrightarrow>
   wordWrap t' = wordWrap t \<Longrightarrow> highlights t' = highlights t \<Longrightarrow> buffer t' = buffer t \<Longrightarrow>
   reindexLines e width t' i strs st = reindexLines e width t i strs st"
proof (induction strs arbitrary: i st)
  case Nil
  show ?case by simp
next
  case (Cons str strs)
  have "reindexLine e width t' i str st = reindexLine e width t i str st"
    using Cons.prems by (rule reindexLine_reads)
  then show ?case using Cons by (simp split: option.split sum.split)
qed

lemma reindexBuffer_lastWidth:
  "reindexBuffer e width t = Some (Inr t') \<Longrightarrow> lastWidth t' = lastWidth t"
  by (auto simp: reindexBuffer_def Let_def split: if_splits option.splits sum.splits)

lemma reindexBuffer_idem:
  assumes "reindexBuffer e width t = Some (Inr t')"
  shows "reindexBuffer e width t' = Some (Inr t')"
proof (cases "index t \<noteq> []")
  case True
  then show ?thesis using assms by (simp add: reindexBuffer_def)
next
  case nil: False
  define t0 where "t0 = t\<lparr>index := [], fromHighlight := -1, toHighlight := -1\<rparr>"
  show ?thesis
  proof (cases "width < 1")
    case True
    then have "t' = t0" using assms nil by (simp add: reindexBuffer_def t0_def)
    then show ?thesis using True by (simp add: reindexBuffer_def t0_def)
  next
    case False
    define init where "init = \<lparr>originalPos = 0, colorPos = 0, regionPos = 0, escapePos = 0,
                     curColor = textColor t0, regionID = [],
                     index' = [], fromHighlight' = -1, toHighlight' = -1\<rparr>"
    obtain st where run: "reindexLines e width t0 0 (buffer t0) init = Some (Inr st)"
      and t': "t' = t0\<lparr>index := index' st, fromHighlight := fromHighlight' st,
                              toHighlight := toHighlight' st,
                              longestLine := longestWidth (index' st)\<rparr>"
      using assms nil False
      by (auto simp: reindexBuffer_def Let_def t0_def init_def split: option.splits sum.splits)
    show ?thesis
    proof (cases "index' st = []")
      case ne: False
      then show ?thesis using t' by (simp add: reindexBuffer_def)
    next
      case True
      define t1 where "t1 = t'\<lparr>index := [], fromHighlight := -1, toHighlight := -1\<rparr>"
      have same: "reindexLines e width t1 0 (buffer t1) init = Some (Inr st)"
        using run reindexLines_reads[of t1 t0 e width 0 "buffer t0" init]
        by (simp add: t1_def t' t0_def)
      have tc: "textColor t1 = textColor t0" by (simp add: t1_def t' t0_def)
      have res: "t1\<lparr>index := index' st, fromHighlight := fromHighlight' st,
                    toHighlight := toHighlight' st,
                    longestLine := longestWidth (index' st)\<rparr> = t'"
        by (simp add: t1_def t' t0_def)
      have i0: "index t' = []" using True t' by simp
      show ?thesis
        using i0 False same tc res
        by (simp add: reindexBuffer_def Let_def t1_def[symmetric] init_def[symmetric])
    qed
  qed
qed


lemma drawReindex_alt:
  "drawReindex e width t =
     (if index t \<noteq> [] \<and> lastWidth t = width then Some (Inr t)
      else reindexBuffer e width (t\<lparr>index := [], lastWidth := width\<rparr>))"
proof (cases "width = lastWidth t")
  case False
  then show ?thesis by (simp add: drawReindex_def Let_def)
next
  case True
  then have same: "(if width \<noteq> lastWidth t then t\<lparr>index := []\<rparr> else t)\<lparr>lastWidth := width\<rparr> = t"
    by simp
  have d: "drawReindex e width t = reindexBuffer e width t"
    unfolding drawReindex_def Let_def same ..
  show ?thesis
  proof (cases "index t = []")
    case nil: True
    then have "t\<lparr>index := [], lastWidth := width\<rparr> = t" using True by simp
    then show ?thesis using d nil by simp
  next
    case False
    then show ?thesis using d True by (simp add: reindexBuffer_def)
  qed
qed


text \<open>
  Claim C3. Making the index current for a width, as \<open>Draw\<close> does (\<open>drawReindex\<close>), is
  idempotent: a second call at the same width, with nothing changed in between, leaves
  the view exactly as the first call left it. When the index is present and was built
  for this width the call changes nothing; otherwise (no index, or an index built for
  another width) the result is what \<open>reindexBuffer\<close> builds from no index at all.
\<close>

theorem drawReindex_idempotent:
  "(drawReindex e width t = Some (Inr t') \<longrightarrow> drawReindex e width t' = Some (Inr t')) \<and>
   (index t \<noteq> [] \<and> lastWidth t = width \<longrightarrow> drawReindex e width t = Some (Inr t)) \<and>
   (index t = [] \<or> lastWidth t \<noteq> width \<longrightarrow>
      drawReindex e width t = reindexBuffer e width (t\<lparr>index := [], lastWidth := width\<rparr>))"
proof (intro conjI impI)
  assume r: "drawReindex e width t = Some (Inr t')"
  define t1 where "t1 = (if width \<noteq> lastWidth t then t\<lparr>index := []\<rparr> else t)\<lparr>lastWidth := width\<rparr>"
  have r1: "reindexBuffer e width t1 = Some (Inr t')"
    using r by (simp add: drawReindex_def Let_def t1_def)
  then have lw: "lastWidth t' = width"
    using reindexBuffer_lastWidth[OF r1] by (simp add: t1_def)
  have same: "(if width \<noteq> lastWidth t' then t'\<lparr>index := []\<rparr> else t')\<lparr>lastWidth := width\<rparr> = t'"
    using lw by simp
  have "drawReindex e width t' = reindexBuffer e width t'"
    unfolding drawReindex_def Let_def same ..
  then show "drawReindex e width t' = Some (Inr t')"
    using reindexBuffer_idem[OF r1] by simp
next
  assume "index t \<noteq> [] \<and> lastWidth t = width"
  then show "drawReindex e width t = Some (Inr t)" by (simp add: drawReindex_alt)
next
  assume "index t = [] \<or> lastWidth t \<noteq> width"
  then show "drawReindex e width t = reindexBuffer e width (t\<lparr>index := [], lastWidth := width\<rparr>)"
    by (auto simp add: drawReindex_alt)
qed


theorem drawReindex_idempotent_witness:
  "drawReindex \<lparr>RuneWidth = \<lambda>r. 1, GetColor = \<lambda>s. 0, escapePattern = \<lambda>s. None\<rparr> 10 ((NewTextView 0)\<lparr>buffer := [bytes ''ab'', bytes ''cd'']\<rparr>) = Some (Inr ((NewTextView 0)\<lparr>buffer := [bytes ''ab'', bytes ''cd''], lastWidth := 10,
        index := [\<lparr>Line = 0, Pos = 0, NextPos = 2, Width = 2, Color = 0, Region = []\<rparr>,
                  \<lparr>Line = 1, Pos = 0, NextPos = 2, Width = 2, Color = 0, Region = []\<rparr>],
        fromHighlight := -1, toHighlight := -1, longestLine := 2\<rparr>)) \<and>
   drawReindex \<lparr>RuneWidth = \<lambda>r. 1, GetColor = \<lambda>s. 0, escapePattern = \<lambda>s. None\<rparr> 10 ((NewTextView 0)\<lparr>buffer := [bytes ''ab'', bytes ''cd''], lastWidth := 10,
        index := [\<lparr>Line = 0, Pos = 0, NextPos = 2, Width = 2, Color = 0, Region = []\<rparr>,
                  \<lparr>Line = 1, Pos = 0, NextPos = 2, Width = 2, Color = 0, Region = []\<rparr>],
        fromHighlight := -1, toHighlight := -1, longestLine := 2\<rparr>) = Some (Inr ((NewTextView 0)\<lparr>buffer := [bytes ''ab'', bytes ''cd''], lastWidth := 10,
        index := [\<lparr>Line = 0, Pos = 0, NextPos = 2, Width = 2, Color = 0, Region = []\<rparr>,
                  \<lparr>Line = 1, Pos = 0, NextPos = 2, Width = 2, Color = 0, Region = []\<rparr>],
        fromHighlight := -1, toHighlight := -1, longestLine := 2\<rparr>)) \<and>
   index ((NewTextView 0)\<lparr>buffer := [bytes ''ab'', bytes ''cd'']\<rparr>) = [] \<and>
   drawReindex \<lparr>RuneWidth = \<lambda>r. 1, GetColor = \<lambda>s. 0, escapePattern = \<lambda>s. None\<rparr> 10 ((NewTextView 0)\<lparr>buffer := [bytes ''ab'', bytes ''cd'']\<rparr>) = reindexBuffer \<lparr>RuneWidth = \<lambda>r. 1, GetColor = \<lambda>s. 0, escapePattern = \<lambda>s. None\<rparr> 10 (((NewTextView 0)\<lparr>buffer := [bytes ''ab'', bytes ''cd'']\<rparr>)\<lparr>index := [], lastWidth := 10\<rparr>)"
proof -
  have h: "drawReindex \<lparr>RuneWidth = \<lambda>r. 1, GetColor = \<lambda>s. 0, escapePattern = \<lambda>s. None\<rparr> 10 ((NewTextView 0)\<lparr>buffer := [bytes ''ab'', bytes ''cd'']\<rparr>) = Some (Inr ((NewTextView 0)\<lparr>buffer := [bytes ''ab'', bytes ''cd''], lastWidth := 10,
        index := [\<lparr>Line = 0, Pos = 0, NextPos = 2, Width = 2, Color = 0, Region = []\<rparr>,
                  \<lparr>Line = 1, Pos = 0, NextPos = 2, Width = 2, Color = 0, Region = []\<rparr>],
        fromHighlight := -1, toHighlight := -1, longestLine := 2\<rparr>))"
    by (simp add: drawReindex_eval setup_eval)
  have n: "index ((NewTextView 0)\<lparr>buffer := [bytes ''ab'', bytes ''cd'']\<rparr>) = []"
    by (simp add: NewTextView_def)
  show ?thesis
    using drawReindex_idempotent [of "\<lparr>RuneWidth = \<lambda>r. 1, GetColor = \<lambda>s. 0, escapePattern = \<lambda>s. None\<rparr>" 10 "((NewTextView 0)\<lparr>buffer := [bytes ''ab'', bytes ''cd'']\<rparr>)" "((NewTextView 0)\<lparr>buffer := [bytes ''ab'', bytes ''cd''], lastWidth := 10,
        index := [\<lparr>Line = 0, Pos = 0, NextPos = 2, Width = 2, Color = 0, Region = []\<rparr>,
                  \<lparr>Line = 1, Pos = 0, NextPos = 2, Width = 2, Color = 0, Region = []\<rparr>],
        fromHighlight := -1, toHighlight := -1, longestLine := 2\<rparr>)"] h n
    by simp
qed

section \<open>The viewport\<close>

lemma adjustColumnOffset_keeps:
  "lineOffset (adjustColumnOffset width t) = lineOffset t"
  "trackEnd (adjustColumnOffset width t) = trackEnd t"
  "index (adjustColumnOffset width t) = index t"
  "scrollToHighlights (adjustColumnOffset width t) = scrollToHighlights t"
  by (simp_all add: adjustColumnOffset_def Let_def)

lemma purgeBuffer_keeps:
  "purgeBuffer t = Inr t' \<Longrightarrow>
     lineOffset t' = lineOffset t \<and> trackEnd t' = trackEnd t
     \<and> scrollToHighlights t' = scrollToHighlights t"
  by (auto simp: purgeBuffer_def Let_def split: if_splits)

lemma wrapInt_id: "intRange x \<Longrightarrow> wrapInt x = x"
  by (simp add: intRange_def wrapInt_def)

lemma reindexBuffer_keeps:
  "reindexBuffer e width t = Some (Inr t') \<Longrightarrow>
     lineOffset t' = lineOffset t \<and> trackEnd t' = trackEnd t"
  by (auto simp: reindexBuffer_def Let_def split: if_splits option.splits sum.splits)

lemma drawReindex_keeps:
  "drawReindex e width t = Some (Inr t') \<Longrightarrow>
     lineOffset t' = lineOffset t \<and> trackEnd t' = trackEnd t"
  using reindexBuffer_keeps[of e width _ t']
  by (auto simp: drawReindex_def Let_def split: if_splits)

lemma adjustLineOffset_result:
  "0 \<le> lineOffset (adjustLineOffset height t)"
  "trackEnd (adjustLineOffset height t)
     = (trackEnd t \<or> int (length (index t)) < wrapInt (lineOffset t + height))"
  "lineOffset (adjustLineOffset height t)
     = (if trackEnd (adjustLineOffset height t)
        then max (wrapInt (int (length (index t)) - height)) 0
        else max (lineOffset t) 0)"
  "scrollToHighlights (adjustLineOffset height t) = scrollToHighlights t"
  by (auto simp: adjustLineOffset_def Let_def)

lemma moveToHighlights_trackEnd: "trackEnd (moveToHighlights height t) = trackEnd t"
  by (simp add: moveToHighlights_def Let_def)

lemma Draw_no_index:
  assumes "drawReindex e width (t\<lparr>pageSize := height\<rparr>) = Some (Inr t1)"
    and "index t1 = []"
  shows "Draw e width height t = Some (Inr t1)"
  using assms by (simp add: Draw_def)

lemma moveToHighlights_index: "index (moveToHighlights height t) = index t"
  by (simp add: moveToHighlights_def Let_def)

lemma Draw_steps:
  assumes "drawReindex e width (t\<lparr>pageSize := height\<rparr>) = Some (Inr t1)"
    and "index t1 \<noteq> []"
    and "Draw e width height t = Some (Inr t')"
  shows "lineOffset t' = lineOffset (adjustLineOffset height (moveToHighlights height t1))"
    and "trackEnd t' = trackEnd (adjustLineOffset height (moveToHighlights height t1))"
    and "scrollToHighlights t' = False"
proof -
  define t2 where "t2 = adjustColumnOffset width (adjustLineOffset height (moveToHighlights height t1))"
  have p: "purgeBuffer t2 = Inr t'"
    using assms by (auto simp: Draw_def Let_def t2_def split: sum.splits)
  from purgeBuffer_keeps[OF p]
  show "lineOffset t' = lineOffset (adjustLineOffset height (moveToHighlights height t1))"
    and "trackEnd t' = trackEnd (adjustLineOffset height (moveToHighlights height t1))"
    and "scrollToHighlights t' = False"
    by (simp_all add: t2_def adjustColumnOffset_keeps adjustLineOffset_result(4)
          moveToHighlights_def Let_def)
qed

lemma Draw_run:
  assumes "drawReindex e width (t\<lparr>pageSize := height\<rparr>) = Some (Inr t1)"
    and "index t1 \<noteq> []"
    and "adjustColumnOffset width (adjustLineOffset height (moveToHighlights height t1)) = t4"
    and "drawBuffer height t4 = Inr texts"
  shows "Draw e width height t = Some (purgeBuffer t4)"
  using assms by (simp add: Draw_def Let_def)

lemmas scroll_eval = moveToHighlights_def adjustLineOffset_def adjustColumnOffset_def goDiv_def
  wrapInt_def AlignLeft_def AlignRight_def AlignCenter_def Let_def


text \<open>
  Claim C6, amended. \<open>t1\<close> is the view after re-indexing, \<open>len\<close> the number of its
  index entries, and the line offset meant is the one after the move to the highlights.
  In a draw that has an index: the line offset ends at 0 or above; \<open>trackEnd\<close> holds
  after the draw exactly when it held before it or the offset plus the height, as Go's
  \<open>int\<close> computes it, exceeds \<open>len\<close>; so a \<open>trackEnd\<close> set on entry stays set, and it is
  forced whenever the sum is in range and exceeds \<open>len\<close>. When \<open>trackEnd\<close> holds after
  the draw the line offset is \<open>len - height\<close> (as \<open>int\<close> computes it) floored at 0, which
  is \<open>max (len - height) 0\<close> when the difference is in range; otherwise it is the offset
  floored at 0. \<open>Draw\<close> returns before all this when the index is empty ("If we don't
  have an index, there's nothing to draw"): the view is then the one re-indexing left,
  with the line offset and \<open>trackEnd\<close> it had before the draw.
\<close>

theorem Draw_line_offset:
  assumes "drawReindex e width (t\<lparr>pageSize := height\<rparr>) = Some (Inr t1)"
    and "Draw e width height t = Some (Inr t')"
  shows "(index t1 \<noteq> [] \<longrightarrow>
            0 \<le> lineOffset t' \<and>
            (trackEnd t' \<longleftrightarrow>
               trackEnd t \<or> int (length (index t1))
                               < wrapInt (lineOffset (moveToHighlights height t1) + height)) \<and>
            (trackEnd t \<longrightarrow> trackEnd t') \<and>
            (intRange (lineOffset (moveToHighlights height t1) + height)
               \<and> int (length (index t1)) < lineOffset (moveToHighlights height t1) + height
               \<longrightarrow> trackEnd t') \<and>
            lineOffset t' =
              (if trackEnd t' then max (wrapInt (int (length (index t1)) - height)) 0
               else max (lineOffset (moveToHighlights height t1)) 0) \<and>
            (trackEnd t' \<and> intRange (int (length (index t1)) - height)
               \<longrightarrow> lineOffset t' = max (int (length (index t1)) - height) 0)) \<and>
         (index t1 = [] \<longrightarrow>
            t' = t1 \<and> lineOffset t' = lineOffset t \<and> trackEnd t' = trackEnd t)"
proof (intro conjI impI)
  assume nil: "index t1 = []"
  show eq: "t' = t1" using Draw_no_index[OF assms(1) nil] assms(2) by simp
  show "lineOffset t' = lineOffset t" "trackEnd t' = trackEnd t"
    using drawReindex_keeps[OF assms(1)] eq by simp_all
next
  assume ne: "index t1 \<noteq> []"
  let ?m = "moveToHighlights height t1"
  have te: "trackEnd ?m = trackEnd t"
    using drawReindex_keeps[OF assms(1)] by (simp add: moveToHighlights_trackEnd)
  have lo: "lineOffset t' = lineOffset (adjustLineOffset height ?m)"
    and tr: "trackEnd t' = trackEnd (adjustLineOffset height ?m)"
    using Draw_steps(1,2)[OF assms(1) ne assms(2)] by simp_all
  have r2: "trackEnd t' = (trackEnd t \<or> int (length (index t1)) < wrapInt (lineOffset ?m + height))"
    using adjustLineOffset_result(2)[where height=height and t="?m"] tr te
    by (simp add: moveToHighlights_index)
  have r3: "lineOffset t' = (if trackEnd t' then max (wrapInt (int (length (index t1)) - height)) 0
                             else max (lineOffset ?m) 0)"
    using adjustLineOffset_result(3)[where height=height and t="?m"] tr lo
    by (simp add: moveToHighlights_index)
  show "0 \<le> lineOffset t'"
    using adjustLineOffset_result(1)[where height=height and t="?m"] lo by simp
  show "trackEnd t' \<longleftrightarrow>
          trackEnd t \<or> int (length (index t1)) < wrapInt (lineOffset ?m + height)"
    by (rule r2)
  show "lineOffset t' = (if trackEnd t' then max (wrapInt (int (length (index t1)) - height)) 0
                          else max (lineOffset ?m) 0)"
    by (rule r3)
  {
    assume "trackEnd t"
    then show "trackEnd t'" using r2 by simp
  }
  {
    assume "intRange (lineOffset ?m + height)
              \<and> int (length (index t1)) < lineOffset ?m + height"
    then show "trackEnd t'" using r2 by (simp add: wrapInt_id)
  }
  {
    assume "trackEnd t' \<and> intRange (int (length (index t1)) - height)"
    then show "lineOffset t' = max (int (length (index t1)) - height) 0"
      using r3 by (simp add: wrapInt_id)
  }
qed

theorem Draw_line_offset_witness:
  "drawReindex \<lparr>RuneWidth = \<lambda>r. 1, GetColor = \<lambda>s. 0, escapePattern = \<lambda>s. None\<rparr> 80 (((NewTextView 0)\<lparr>buffer := [bytes ''a'', bytes ''b'', bytes ''c''], lineOffset := 5\<rparr>)\<lparr>pageSize := 2\<rparr>) = Some (Inr ((NewTextView 0)\<lparr>buffer := [bytes ''a'', bytes ''b'', bytes ''c''], lineOffset := 5,
        pageSize := 2, lastWidth := 80,
        index := [\<lparr>Line = 0, Pos = 0, NextPos = 1, Width = 1, Color = 0, Region = []\<rparr>,
                  \<lparr>Line = 1, Pos = 0, NextPos = 1, Width = 1, Color = 0, Region = []\<rparr>,
                  \<lparr>Line = 2, Pos = 0, NextPos = 1, Width = 1, Color = 0, Region = []\<rparr>],
        fromHighlight := -1, toHighlight := -1, longestLine := 1\<rparr>)) \<and>
   index ((NewTextView 0)\<lparr>buffer := [bytes ''a'', bytes ''b'', bytes ''c''], lineOffset := 5,
        pageSize := 2, lastWidth := 80,
        index := [\<lparr>Line = 0, Pos = 0, NextPos = 1, Width = 1, Color = 0, Region = []\<rparr>,
                  \<lparr>Line = 1, Pos = 0, NextPos = 1, Width = 1, Color = 0, Region = []\<rparr>,
                  \<lparr>Line = 2, Pos = 0, NextPos = 1, Width = 1, Color = 0, Region = []\<rparr>],
        fromHighlight := -1, toHighlight := -1, longestLine := 1\<rparr>) \<noteq> [] \<and>
   Draw \<lparr>RuneWidth = \<lambda>r. 1, GetColor = \<lambda>s. 0, escapePattern = \<lambda>s. None\<rparr> 80 2 ((NewTextView 0)\<lparr>buffer := [bytes ''a'', bytes ''b'', bytes ''c''], lineOffset := 5\<rparr>) = Some (Inr ((NewTextView 0)\<lparr>buffer := [bytes ''a'', bytes ''b'', bytes ''c''], lineOffset := 5,
        pageSize := 2, lastWidth := 80,
        index := [\<lparr>Line = 0, Pos = 0, NextPos = 1, Width = 1, Color = 0, Region = []\<rparr>,
                  \<lparr>Line = 1, Pos = 0, NextPos = 1, Width = 1, Color = 0, Region = []\<rparr>,
                  \<lparr>Line = 2, Pos = 0, NextPos = 1, Width = 1, Color = 0, Region = []\<rparr>],
        fromHighlight := -1, toHighlight := -1, longestLine := 1,
        trackEnd := True, lineOffset := 1\<rparr>)) \<and>
   0 \<le> lineOffset ((NewTextView 0)\<lparr>buffer := [bytes ''a'', bytes ''b'', bytes ''c''], lineOffset := 5,
        pageSize := 2, lastWidth := 80,
        index := [\<lparr>Line = 0, Pos = 0, NextPos = 1, Width = 1, Color = 0, Region = []\<rparr>,
                  \<lparr>Line = 1, Pos = 0, NextPos = 1, Width = 1, Color = 0, Region = []\<rparr>,
                  \<lparr>Line = 2, Pos = 0, NextPos = 1, Width = 1, Color = 0, Region = []\<rparr>],
        fromHighlight := -1, toHighlight := -1, longestLine := 1,
        trackEnd := True, lineOffset := 1\<rparr>) \<and> trackEnd ((NewTextView 0)\<lparr>buffer := [bytes ''a'', bytes ''b'', bytes ''c''], lineOffset := 5,
        pageSize := 2, lastWidth := 80,
        index := [\<lparr>Line = 0, Pos = 0, NextPos = 1, Width = 1, Color = 0, Region = []\<rparr>,
                  \<lparr>Line = 1, Pos = 0, NextPos = 1, Width = 1, Color = 0, Region = []\<rparr>,
                  \<lparr>Line = 2, Pos = 0, NextPos = 1, Width = 1, Color = 0, Region = []\<rparr>],
        fromHighlight := -1, toHighlight := -1, longestLine := 1,
        trackEnd := True, lineOffset := 1\<rparr>) \<and>
   lineOffset ((NewTextView 0)\<lparr>buffer := [bytes ''a'', bytes ''b'', bytes ''c''], lineOffset := 5,
        pageSize := 2, lastWidth := 80,
        index := [\<lparr>Line = 0, Pos = 0, NextPos = 1, Width = 1, Color = 0, Region = []\<rparr>,
                  \<lparr>Line = 1, Pos = 0, NextPos = 1, Width = 1, Color = 0, Region = []\<rparr>,
                  \<lparr>Line = 2, Pos = 0, NextPos = 1, Width = 1, Color = 0, Region = []\<rparr>],
        fromHighlight := -1, toHighlight := -1, longestLine := 1,
        trackEnd := True, lineOffset := 1\<rparr>) = max (int (length (index ((NewTextView 0)\<lparr>buffer := [bytes ''a'', bytes ''b'', bytes ''c''], lineOffset := 5,
        pageSize := 2, lastWidth := 80,
        index := [\<lparr>Line = 0, Pos = 0, NextPos = 1, Width = 1, Color = 0, Region = []\<rparr>,
                  \<lparr>Line = 1, Pos = 0, NextPos = 1, Width = 1, Color = 0, Region = []\<rparr>,
                  \<lparr>Line = 2, Pos = 0, NextPos = 1, Width = 1, Color = 0, Region = []\<rparr>],
        fromHighlight := -1, toHighlight := -1, longestLine := 1\<rparr>))) - 2) 0"
proof -
  have h1: "drawReindex \<lparr>RuneWidth = \<lambda>r. 1, GetColor = \<lambda>s. 0, escapePattern = \<lambda>s. None\<rparr> 80 (((NewTextView 0)\<lparr>buffer := [bytes ''a'', bytes ''b'', bytes ''c''], lineOffset := 5\<rparr>)\<lparr>pageSize := 2\<rparr>) = Some (Inr ((NewTextView 0)\<lparr>buffer := [bytes ''a'', bytes ''b'', bytes ''c''], lineOffset := 5,
        pageSize := 2, lastWidth := 80,
        index := [\<lparr>Line = 0, Pos = 0, NextPos = 1, Width = 1, Color = 0, Region = []\<rparr>,
                  \<lparr>Line = 1, Pos = 0, NextPos = 1, Width = 1, Color = 0, Region = []\<rparr>,
                  \<lparr>Line = 2, Pos = 0, NextPos = 1, Width = 1, Color = 0, Region = []\<rparr>],
        fromHighlight := -1, toHighlight := -1, longestLine := 1\<rparr>))"
    by (simp add: drawReindex_eval setup_eval)
  have h2: "index ((NewTextView 0)\<lparr>buffer := [bytes ''a'', bytes ''b'', bytes ''c''], lineOffset := 5,
        pageSize := 2, lastWidth := 80,
        index := [\<lparr>Line = 0, Pos = 0, NextPos = 1, Width = 1, Color = 0, Region = []\<rparr>,
                  \<lparr>Line = 1, Pos = 0, NextPos = 1, Width = 1, Color = 0, Region = []\<rparr>,
                  \<lparr>Line = 2, Pos = 0, NextPos = 1, Width = 1, Color = 0, Region = []\<rparr>],
        fromHighlight := -1, toHighlight := -1, longestLine := 1\<rparr>) \<noteq> []"
    by simp
  have s: "adjustColumnOffset 80 (adjustLineOffset 2 (moveToHighlights 2 ((NewTextView 0)\<lparr>buffer := [bytes ''a'', bytes ''b'', bytes ''c''], lineOffset := 5,
        pageSize := 2, lastWidth := 80,
        index := [\<lparr>Line = 0, Pos = 0, NextPos = 1, Width = 1, Color = 0, Region = []\<rparr>,
                  \<lparr>Line = 1, Pos = 0, NextPos = 1, Width = 1, Color = 0, Region = []\<rparr>,
                  \<lparr>Line = 2, Pos = 0, NextPos = 1, Width = 1, Color = 0, Region = []\<rparr>],
        fromHighlight := -1, toHighlight := -1, longestLine := 1\<rparr>))) = ((NewTextView 0)\<lparr>buffer := [bytes ''a'', bytes ''b'', bytes ''c''], lineOffset := 5,
        pageSize := 2, lastWidth := 80,
        index := [\<lparr>Line = 0, Pos = 0, NextPos = 1, Width = 1, Color = 0, Region = []\<rparr>,
                  \<lparr>Line = 1, Pos = 0, NextPos = 1, Width = 1, Color = 0, Region = []\<rparr>,
                  \<lparr>Line = 2, Pos = 0, NextPos = 1, Width = 1, Color = 0, Region = []\<rparr>],
        fromHighlight := -1, toHighlight := -1, longestLine := 1,
        trackEnd := True, lineOffset := 1\<rparr>)"
    by (simp add: scroll_eval setup_eval)
  have d: "drawBuffer 2 ((NewTextView 0)\<lparr>buffer := [bytes ''a'', bytes ''b'', bytes ''c''], lineOffset := 5,
        pageSize := 2, lastWidth := 80,
        index := [\<lparr>Line = 0, Pos = 0, NextPos = 1, Width = 1, Color = 0, Region = []\<rparr>,
                  \<lparr>Line = 1, Pos = 0, NextPos = 1, Width = 1, Color = 0, Region = []\<rparr>,
                  \<lparr>Line = 2, Pos = 0, NextPos = 1, Width = 1, Color = 0, Region = []\<rparr>],
        fromHighlight := -1, toHighlight := -1, longestLine := 1,
        trackEnd := True, lineOffset := 1\<rparr>) = Inr [bytes ''b'', bytes ''c'']"
    by (simp add: drawBuffer_def slice_def setup_eval)
  have p: "purgeBuffer ((NewTextView 0)\<lparr>buffer := [bytes ''a'', bytes ''b'', bytes ''c''], lineOffset := 5,
        pageSize := 2, lastWidth := 80,
        index := [\<lparr>Line = 0, Pos = 0, NextPos = 1, Width = 1, Color = 0, Region = []\<rparr>,
                  \<lparr>Line = 1, Pos = 0, NextPos = 1, Width = 1, Color = 0, Region = []\<rparr>,
                  \<lparr>Line = 2, Pos = 0, NextPos = 1, Width = 1, Color = 0, Region = []\<rparr>],
        fromHighlight := -1, toHighlight := -1, longestLine := 1,
        trackEnd := True, lineOffset := 1\<rparr>) = Inr ((NewTextView 0)\<lparr>buffer := [bytes ''a'', bytes ''b'', bytes ''c''], lineOffset := 5,
        pageSize := 2, lastWidth := 80,
        index := [\<lparr>Line = 0, Pos = 0, NextPos = 1, Width = 1, Color = 0, Region = []\<rparr>,
                  \<lparr>Line = 1, Pos = 0, NextPos = 1, Width = 1, Color = 0, Region = []\<rparr>,
                  \<lparr>Line = 2, Pos = 0, NextPos = 1, Width = 1, Color = 0, Region = []\<rparr>],
        fromHighlight := -1, toHighlight := -1, longestLine := 1,
        trackEnd := True, lineOffset := 1\<rparr>)"
    by (simp add: purgeBuffer_def setup_eval)
  have h3: "Draw \<lparr>RuneWidth = \<lambda>r. 1, GetColor = \<lambda>s. 0, escapePattern = \<lambda>s. None\<rparr> 80 2 ((NewTextView 0)\<lparr>buffer := [bytes ''a'', bytes ''b'', bytes ''c''], lineOffset := 5\<rparr>) = Some (Inr ((NewTextView 0)\<lparr>buffer := [bytes ''a'', bytes ''b'', bytes ''c''], lineOffset := 5,
        pageSize := 2, lastWidth := 80,
        index := [\<lparr>Line = 0, Pos = 0, NextPos = 1, Width = 1, Color = 0, Region = []\<rparr>,
                  \<lparr>Line = 1, Pos = 0, NextPos = 1, Width = 1, Color = 0, Region = []\<rparr>,
                  \<lparr>Line = 2, Pos = 0, NextPos = 1, Width = 1, Color = 0, Region = []\<rparr>],
        fromHighlight := -1, toHighlight := -1, longestLine := 1,
        trackEnd := True, lineOffset := 1\<rparr>))"
    using Draw_run [OF h1 h2 s d] p by simp
  show ?thesis
    using Draw_line_offset [OF h1 h3] h1 h2 h3 by (simp add: setup_eval)
qed

text \<open>
  The claim as it stands fails for a view without an index: a new text view has line
  offset -1, and a draw of it (nothing written yet) returns early and leaves it there.
\<close>

theorem Draw_without_index_keeps_offset:
  "Draw \<lparr>RuneWidth = \<lambda>r. 1, GetColor = \<lambda>s. 0, escapePattern = \<lambda>s. None\<rparr> 80 24 (NewTextView 0)
   = Some (Inr ((NewTextView 0)\<lparr>pageSize := 24, lastWidth := 80, fromHighlight := -1,
                               toHighlight := -1\<rparr>)) \<and>
   lineOffset ((NewTextView 0)\<lparr>pageSize := 24, lastWidth := 80, fromHighlight := -1,
                               toHighlight := -1\<rparr>) = -1"
  by (simp add: Draw_def drawReindex_def reindexBuffer_def Let_def NewTextView_def longestWidth_def)

text \<open>
  The sum is an \<open>int\<close> sum. With the line offset at the largest \<open>int\<close>, three lines and a
  height of 2, \<open>lineOffset + height\<close> wraps around to a negative number: \<open>trackEnd\<close> is not
  forced, and the clamping leaves the offset where it was, past the end of the index.
\<close>

lemma adjustLineOffset_wraps:
  "adjustLineOffset 2 (t\<lparr>index := [ix, ix, ix], trackEnd := False,
                         lineOffset := 9223372036854775807\<rparr>)
   = t\<lparr>index := [ix, ix, ix], trackEnd := False, lineOffset := 9223372036854775807\<rparr>"
  by (simp add: adjustLineOffset_def wrapInt_def)




section \<open>The round trip\<close>





















section \<open>Width and the number of entries\<close>

text \<open>
  Claim C4 says that a wider viewport never gives a logical line more display entries.
  The wrap loop cuts the line with \<open>str = str[len(extract):]\<close>, where \<open>extract\<close> is what
  \<open>runewidth.Truncate\<close> returns: the leading runes that fit, encoded anew. For a byte
  that is no valid UTF-8 the rune is U+FFFD, three bytes long, so the piece is longer
  than the bytes it stands for. The line FF 61 61 (written by one \<open>Write\<close>; every rune one
  column wide) is indexed as one entry at width 1, and at width 2 the piece has four
  bytes, the line three, and the slice panics: the wider viewport gives no index at all.
\<close>

theorem reindex_wider_viewport_panics:
  "Write 4 [0xFF, 0x61, 0x61] (NewTextView 0) = Inr (3, None, ((NewTextView 0)\<lparr>buffer := [[0xFF, 0x61, 0x61]]\<rparr>)) \<and>
   map_option (map_sum id (\<lambda>t. map (\<lambda>ix. (Line ix, Pos ix, NextPos ix, Width ix)) (index t)))
     (reindexBuffer \<lparr>RuneWidth = \<lambda>r. 1, GetColor = \<lambda>s. 0, escapePattern = \<lambda>s. None\<rparr> 1 ((NewTextView 0)\<lparr>buffer := [[0xFF, 0x61, 0x61]]\<rparr>)) = Some (Inr [(0, 0, 3, 1)]) \<and>
   reindexBuffer \<lparr>RuneWidth = \<lambda>r. 1, GetColor = \<lambda>s. 0, escapePattern = \<lambda>s. None\<rparr> 2 ((NewTextView 0)\<lparr>buffer := [[0xFF, 0x61, 0x61]]\<rparr>) = Some (Inl SliceBoundsOutOfRange)"
  by (simp add: Write_def lastRuneStart_eval replaceTabs_def reindex_eval width_eval
        pattern_eval setup_eval utf8_eval)

text \<open>
  At a width smaller than a rune of the line the same loop does not return: the piece is
  empty, the text stays as it is, and the next pass is the same. Here the line is U+4E16
  (E4 B8 96), two columns wide, at width 1.
\<close>

lemma extractLine_wide:
  "extractLine \<lparr>RuneWidth = \<lambda>r. 2, GetColor = \<lambda>s. 0, escapePattern = \<lambda>s. None\<rparr> 1 False
     [0xE4, 0xB8, 0x96] = []"
  by (simp add: extractLine_def width_eval utf8_eval)

lemma splitLines_wide_rune_never_returns:
  "splitLines \<lparr>RuneWidth = \<lambda>r. 2, GetColor = \<lambda>s. 0, escapePattern = \<lambda>s. None\<rparr> 1 False
     [0xE4, 0xB8, 0x96] = None"
proof (rule ccontr)
  assume "splitLines \<lparr>RuneWidth = \<lambda>r. 2, GetColor = \<lambda>s. 0, escapePattern = \<lambda>s. None\<rparr> 1 False
     [0xE4, 0xB8, 0x96] \<noteq> None"
  then obtain r where
    r: "splitLines \<lparr>RuneWidth = \<lambda>r. 2, GetColor = \<lambda>s. 0, escapePattern = \<lambda>s. None\<rparr> 1 False
     [0xE4, 0xB8, 0x96] = Some r"
    by auto
  have "\<not> (\<lparr>RuneWidth = \<lambda>r. 2, GetColor = \<lambda>s. 0, escapePattern = \<lambda>s. None\<rparr>
          = \<lparr>RuneWidth = \<lambda>r. 2, GetColor = \<lambda>s. 0, escapePattern = \<lambda>s. None\<rparr>
        \<and> (1::int) = 1 \<and> False = False \<and> [0xE4, 0xB8, 0x96] = [0xE4, 0xB8, 0x96::nat])"
  proof (rule splitLines.raw_induct
      [where P="\<lambda>e width ww str r.
         \<not> (e = \<lparr>RuneWidth = \<lambda>r. 2, GetColor = \<lambda>s. 0, escapePattern = \<lambda>s. None\<rparr>
            \<and> width = 1 \<and> ww = False \<and> str = [0xE4, 0xB8, 0x96])", OF _ r])
    fix f :: "env \<Rightarrow> int \<Rightarrow> bool \<Rightarrow> gostring \<Rightarrow> gostring list result"
      and e width ww str r
    assume ih: "\<And>e width ww str r. f e width ww str = Some r \<Longrightarrow>
         \<not> (e = \<lparr>RuneWidth = \<lambda>r. 2, GetColor = \<lambda>s. 0, escapePattern = \<lambda>s. None\<rparr>
            \<and> width = 1 \<and> ww = False \<and> str = [0xE4, 0xB8, 0x96])"
    assume step: "(if str = [] then Some (Inr [])
        else let extract = extractLine e width ww str
             in if length str < length extract then Some (Inl SliceBoundsOutOfRange)
                else Option.bind (f e width ww (drop (length extract) str))
                       (\<lambda>r. case r of Inl p \<Rightarrow> Some (Inl p)
                            | Inr rest \<Rightarrow> Some (Inr (extract # rest)))) = Some r"
    show "\<not> (e = \<lparr>RuneWidth = \<lambda>r. 2, GetColor = \<lambda>s. 0, escapePattern = \<lambda>s. None\<rparr>
            \<and> width = 1 \<and> ww = False \<and> str = [0xE4, 0xB8, 0x96])"
    proof
      assume a: "e = \<lparr>RuneWidth = \<lambda>r. 2, GetColor = \<lambda>s. 0, escapePattern = \<lambda>s. None\<rparr>
            \<and> width = 1 \<and> ww = False \<and> str = [0xE4, 0xB8, 0x96]"
      then have "Option.bind (f e width ww str)
                       (\<lambda>r. case r of Inl p \<Rightarrow> Some (Inl p)
                            | Inr rest \<Rightarrow> Some (Inr ([] # rest))) = Some r"
        using step extractLine_wide by simp
      then obtain r' where "f e width ww str = Some r'"
        by (cases "f e width ww str") auto
      from ih[OF this] a show False by simp
    qed
  qed
  then show False by simp
qed


section \<open>The region extractor\<close>








lemma rangeString_ascii:
  "list_all (\<lambda>b. b < 0x80) xs \<Longrightarrow>
   rangeString pos 0 (xs @ ys) = zip [pos..<pos + length xs] xs @ rangeString (pos + length xs) 0 ys"
proof (induction xs arbitrary: pos)
  case Nil
  then show ?case by simp
next
  case (Cons x xs)
  have d: "DecodeRune (x # xs @ ys) = (x, 1)" using Cons.prems by (simp add: DecodeRune_def first_def)
  have u: "[pos..<Suc (pos + length xs)] = pos # [Suc pos..<Suc (pos + length xs)]"
    by (simp add: upt_conv_Cons del: upt_Suc)
  have a: "list_all (\<lambda>b. b < 0x80) xs" using Cons.prems by simp
  show ?case using Cons.IH[OF a, of "Suc pos"] d by (simp add: u del: upt_Suc)
qed



































subsection \<open>Valid UTF-8 is written back as it was read\<close>





















lemma validUTF8_ascii: "list_all (\<lambda>b. b < 0x80) s \<Longrightarrow> validUTF8 s"
  unfolding validUTF8_def
  by (induction s) (auto simp: DecodeRune_def first_def RuneError_def)

lemma validUTF8_example: "validUTF8 [0x68, 0xC3, 0xA9, 0xE4, 0xB8, 0x96, 0xF0, 0x9F, 0x98, 0x80]"
  by (simp add: validUTF8_def utf8_eval)

subsection \<open>The region between the tags\<close>


lemma encodeRunes_ascii: "list_all (\<lambda>b. b < 0x80) s \<Longrightarrow> encodeRunes s = s"
  by (induction s) (auto simp: encodeRunes_def EncodeRune_def)

lemma reencode_ascii:
  assumes "list_all (\<lambda>b. b < 0x80) s"
  shows "reencode s = s"
proof -
  have "rangeString 0 0 s = zip [0..<length s] s"
    using rangeString_ascii[OF assms, of 0 "[]"] by simp
  then have "runes s = s" by (simp add: runes_def)
  then show ?thesis using encodeRunes_ascii[OF assms] by (simp add: reencode_def)
qed





end
